theory Spec2Isabelle
  imports Main "HOL-Library.Char_ord" "HOL-Library.List_Lexorder"
begin

section \<open>Group service of the statistics tracker: a shallow embedding\<close>

text \<open>
  The embedded module is the group service
  (\<^verbatim>\<open>src/server/src/api/jobs/instances/AddToGroupCompetitions.js\<close>, from line 10 on):
  queries and mutations over the tables Group, Membership and Player, and the score
  heuristic. JavaScript strings are modelled as \<^typ>\<open>string\<close>; ids and times as
  \<^typ>\<open>nat\<close>, where \<^verbatim>\<open>!id\<close> holds exactly for \<open>0\<close>.
\<close>

subsection \<open>Name sanitization\<close>

text \<open>
  \<^verbatim>\<open>name.replace(/_/g, ' ')\<close>: every occurrence of one character is replaced by another.
\<close>

definition replaceAll :: "char \<Rightarrow> char \<Rightarrow> string \<Rightarrow> string" where
  "replaceAll a b s = map (\<lambda>c. if c = a then b else c) s"

text \<open>
  \<^verbatim>\<open>.replace(/ +(?= )/g, '')\<close>: a maximal match is a run of spaces that is followed by one
  more space, so exactly the spaces that are followed by a space are deleted.
\<close>

fun collapseSpaces :: "string \<Rightarrow> string" where
  "collapseSpaces (a # b # cs) =
     (if a = CHR '' '' \<and> b = CHR '' '' then collapseSpaces (b # cs)
      else a # collapseSpaces (b # cs))"
| "collapseSpaces cs = cs"

text \<open>
  The characters \<^verbatim>\<open>String.prototype.trim\<close> strips (WhiteSpace and LineTerminator of
  ECMAScript), as far as they are characters of \<^typ>\<open>char\<close>: TAB, LF, VT, FF, CR, space
  and the no-break space.
\<close>

definition isWhiteSpace :: "char \<Rightarrow> bool" where
  "isWhiteSpace c = (of_char c \<in> {9, 10, 11, 12, 13, 32, 160 :: nat})"

definition trim :: "string \<Rightarrow> string" where
  "trim s = rev (dropWhile isWhiteSpace (rev (dropWhile isWhiteSpace s)))"

definition sanitizeName :: "string \<Rightarrow> string" where
  "sanitizeName name =
     trim (collapseSpaces (replaceAll CHR ''-'' CHR '' '' (replaceAll CHR ''_'' CHR '' '' name)))"

subsection \<open>Values, tables and errors\<close>

text \<open>
  Plain objects handed to the caller: a list of fields in insertion order. \<open>JUndefined\<close>
  is a field that holds \<^verbatim>\<open>undefined\<close>.
\<close>

datatype json =
    JNull
  | JUndefined
  | JBool bool
  | JNum int
  | JStr string
  | JArr "json list"
  | JObj "(string \<times> json) list"

type_synonym obj = "(string \<times> json) list"

text \<open>
  The rows of the three tables of the module, and of the snapshots it reads. The
  declarations of the tables are not part of the given source; the columns are those of
  the spec's data model.
\<close>

record group =
  g_id :: nat
  g_name :: string
  g_clanChat :: "string option"
  g_verificationHash :: string
  g_verified :: bool
  g_score :: int
  g_createdAt :: nat
  g_updatedAt :: nat

record player =
  p_id :: nat
  p_username :: string
  p_displayName :: string
  p_type :: string
  p_updatedAt :: nat

record membership =
  m_playerId :: nat
  m_groupId :: nat
  m_role :: string

record snapshot =
  s_playerId :: nat
  s_createdAt :: nat
  s_overallExperience :: int

record db =
  groups :: "group list"
  memberships :: "membership list"
  players :: "player list"
  snapshots :: "snapshot list"

record pagination =
  limit :: nat
  offset :: nat

text \<open>
  One element of a \<^verbatim>\<open>members\<close> argument, \<^verbatim>\<open>{username: "ABC", role: "member"}\<close>; the role
  may be left out. A missing username is the empty string (both are falsy).
\<close>

record member_input =
  mi_username :: string
  mi_role :: "string option"

text \<open>
  The message of each \<^verbatim>\<open>BadRequestError\<close> the module throws, and the errors that are not
  thrown by the module itself: a \<^verbatim>\<open>TypeError\<close> of the runtime and the store's refusal of
  a second row under one key.
\<close>

datatype reason =
    InvalidGroupId
  | InvalidPlayerId
  | GroupNotFound nat
  | InvalidPeriod string
  | InvalidMetric string
  | NoMembers
  | NoStats
  | InvalidGroupName
  | NameTaken string
  | MissingUsername
  | InvalidUsernames "string list"
  | InvalidVerificationCode
  | NothingToEdit
  | IncorrectVerificationCode
  | InvalidGroup
  | InvalidMembersList
  | AllAlreadyMembers
  | NoValidPlayers
  | NoneWereMembers
  | InvalidUsername
  | InvalidGroupRole
  | NotAMember string string
  | AlreadyHasRole string string

datatype error =
    BadRequestError reason
  | TypeError
  | UniqueConstraintError

definition isBadRequest :: "error + 'a \<Rightarrow> bool" where
  "isBadRequest r = (case r of Inl (BadRequestError _) \<Rightarrow> True | _ \<Rightarrow> False)"

subsection \<open>Library functions the module calls\<close>

text \<open>
  \<^verbatim>\<open>_.uniqBy(xs, f)\<close>: the first element of every key is kept, in the order of the
  array.
\<close>

fun uniqBy_seen :: "('a \<Rightarrow> 'k) \<Rightarrow> 'k list \<Rightarrow> 'a list \<Rightarrow> 'a list" where
  "uniqBy_seen f seen [] = []"
| "uniqBy_seen f seen (x # xs) =
     (if f x \<in> set seen then uniqBy_seen f seen xs
      else x # uniqBy_seen f (f x # seen) xs)"

definition uniqBy :: "'a list \<Rightarrow> ('a \<Rightarrow> 'k) \<Rightarrow> 'a list" where
  "uniqBy xs f = uniqBy_seen f [] xs"

text \<open>\<^verbatim>\<open>_.omit(object, keys)\<close> and the spread \<^verbatim>\<open>{...object, key: value}\<close>.\<close>

definition omit :: "obj \<Rightarrow> string list \<Rightarrow> obj" where
  "omit ob ks = filter (\<lambda>kv. fst kv \<notin> set ks) ob"

definition assign :: "obj \<Rightarrow> string \<Rightarrow> json \<Rightarrow> obj" where
  "assign ob k v =
     (if k \<in> fst ` set ob then map (\<lambda>kv. if fst kv = k then (k, v) else kv) ob
      else ob @ [(k, v)])"

definition field :: "obj \<Rightarrow> string \<Rightarrow> json" where
  "field ob k = (case map_of ob k of None \<Rightarrow> JUndefined | Some v \<Rightarrow> v)"

text \<open>\<^verbatim>\<open>xs.slice(offset, offset + limit)\<close> on natural numbers.\<close>

definition slice :: "'a list \<Rightarrow> nat \<Rightarrow> nat \<Rightarrow> 'a list" where
  "slice xs start stop = take (stop - start) (drop start xs)"

text \<open>
  \<^verbatim>\<open>xs.sort(compare)\<close>: the sort of the runtime is stable, and for a consistent
  comparison every stable sort gives the same array; it is modelled as the insertion
  sort that puts an element before the first one it does not compare greater than.
\<close>

fun insort_cmp :: "('a \<Rightarrow> 'a \<Rightarrow> int) \<Rightarrow> 'a \<Rightarrow> 'a list \<Rightarrow> 'a list" where
  "insort_cmp c x [] = [x]"
| "insort_cmp c x (y # ys) = (if c x y \<le> 0 then x # y # ys else y # insort_cmp c x ys)"

definition sort_cmp :: "('a \<Rightarrow> 'a \<Rightarrow> int) \<Rightarrow> 'a list \<Rightarrow> 'a list" where
  "sort_cmp c xs = foldr (insort_cmp c) xs []"

text \<open>
  \<^verbatim>\<open>String.prototype.toLowerCase\<close> on the characters of \<^typ>\<open>char\<close>: the letters A to Z
  and the capital letters of Latin-1.
\<close>

definition toLowerCase_char :: "char \<Rightarrow> char" where
  "toLowerCase_char c =
     (let n = (of_char c :: nat) in
      if (65 \<le> n \<and> n \<le> 90) \<or> (192 \<le> n \<and> n \<le> 222 \<and> n \<noteq> 215) then char_of (n + 32) else c)"

definition toLowerCase :: "string \<Rightarrow> string" where
  "toLowerCase s = map toLowerCase_char s"

subsection \<open>Queries of the store\<close>

text \<open>\<^verbatim>\<open>Group.findOne({ where: { id } })\<close> and \<^verbatim>\<open>Group.findOne({ where: { name } })\<close>.\<close>

definition Group_findOne :: "db \<Rightarrow> nat \<Rightarrow> group option" where
  "Group_findOne d i = find (\<lambda>g. g_id g = i) (groups d)"

definition Group_findByName :: "db \<Rightarrow> string \<Rightarrow> group option" where
  "Group_findByName d n = find (\<lambda>g. g_name g = n) (groups d)"

definition Player_findByPk :: "db \<Rightarrow> nat \<Rightarrow> player option" where
  "Player_findByPk d i = find (\<lambda>p. p_id p = i) (players d)"

text \<open>
  \<^verbatim>\<open>Membership.findAll({ where: { groupId }, include: [{ model: Player }] })\<close> and the
  association getter \<^verbatim>\<open>group.getMembers()\<close>: the membership rows of the group in table
  order, each with its player. Membership rows reference players and groups by foreign
  key, so the join keeps the rows whose player exists.
\<close>

definition groupMemberships :: "db \<Rightarrow> nat \<Rightarrow> (player \<times> membership) list" where
  "groupMemberships d gid =
     List.map_filter
       (\<lambda>m. if m_groupId m = gid
            then map_option (\<lambda>p. (p, m)) (Player_findByPk d (m_playerId m))
            else None)
       (memberships d)"

text \<open>\<^verbatim>\<open>Membership.findAll({ where: { playerId }, include: [{ model: Group }] })\<close>.\<close>

definition playerMemberships :: "db \<Rightarrow> nat \<Rightarrow> (membership \<times> group) list" where
  "playerMemberships d pid =
     List.map_filter
       (\<lambda>m. if m_playerId m = pid
            then map_option (\<lambda>g. (m, g)) (Group_findOne d (m_groupId m))
            else None)
       (memberships d)"

subsection \<open>Formatting and the group queries\<close>

definition group_toJSON :: "group \<Rightarrow> obj" where
  "group_toJSON g =
     [(''id'', JNum (int (g_id g))),
      (''name'', JStr (g_name g)),
      (''clanChat'', case g_clanChat g of None \<Rightarrow> JNull | Some c \<Rightarrow> JStr c),
      (''verificationHash'', JStr (g_verificationHash g)),
      (''verified'', JBool (g_verified g)),
      (''score'', JNum (g_score g)),
      (''createdAt'', JNum (int (g_createdAt g))),
      (''updatedAt'', JNum (int (g_updatedAt g)))]"

definition player_toJSON :: "player \<Rightarrow> obj" where
  "player_toJSON p =
     [(''id'', JNum (int (p_id p))),
      (''username'', JStr (p_username p)),
      (''displayName'', JStr (p_displayName p)),
      (''type'', JStr (p_type p)),
      (''updatedAt'', JNum (int (p_updatedAt p)))]"

definition format :: "group \<Rightarrow> obj" where
  "format g = omit (group_toJSON g) [''verificationHash'']"

text \<open>
  \<^verbatim>\<open>attachMembersCount\<close>: one count row per group id of the list that has membership
  rows, keyed by group id, and 0 for a group without a row.
\<close>

definition obj_id :: "obj \<Rightarrow> nat" where
  "obj_id ob = (case field ob ''id'' of JNum n \<Rightarrow> nat n | _ \<Rightarrow> 0)"

definition membersCount :: "db \<Rightarrow> nat list \<Rightarrow> (nat \<times> nat) list" where
  "membersCount d ids =
     map (\<lambda>gid. (gid, length (filter (\<lambda>m. m_groupId m = gid) (memberships d))))
       (remdups (filter (\<lambda>gid. gid \<in> set ids) (map m_groupId (memberships d))))"

definition attachMembersCount :: "db \<Rightarrow> obj list \<Rightarrow> obj list" where
  "attachMembersCount d gs =
     (let countMap = map_of (membersCount d (map obj_id gs)) in
      map (\<lambda>g. assign g ''memberCount''
                 (JNum (case countMap (obj_id g) of None \<Rightarrow> 0 | Some c \<Rightarrow> int c))) gs)"

text \<open>
  \<^verbatim>\<open>list\<close>: the pattern match \<^verbatim>\<open>iLike\<close> of the store is a parameter; a falsy name selects
  every group. Order by score descending, then id ascending; then limit and offset.
\<close>

definition list_groups ::
  "(string \<Rightarrow> string \<Rightarrow> bool) \<Rightarrow> db \<Rightarrow> string \<Rightarrow> pagination \<Rightarrow> obj list" where
  "list_groups iLike d name pg =
     (let matching =
            (if name = [] then groups d
             else filter (\<lambda>g. iLike (g_name g) (''%'' @ sanitizeName name @ ''%'')) (groups d));
          ordered = sort_key (\<lambda>g. - g_score g) (sort_key g_id matching);
          page = take (limit pg) (drop (offset pg) ordered)
      in attachMembersCount d (map format page))"

definition findForPlayer :: "db \<Rightarrow> nat \<Rightarrow> pagination \<Rightarrow> error + obj list" where
  "findForPlayer d playerId pg =
     (if playerId = 0 then Inl (BadRequestError InvalidPlayerId)
      else
        let ms = playerMemberships d playerId;
            gs = map format
                   (sort_cmp (\<lambda>a b. g_score b - g_score a)
                      (map snd
                         (slice (uniqBy ms (\<lambda>m. g_id (snd m)))
                            (offset pg) (offset pg + limit pg))))
        in Inr (attachMembersCount d gs))"

definition view :: "db \<Rightarrow> nat \<Rightarrow> error + obj" where
  "view d i =
     (if i = 0 then Inl (BadRequestError InvalidGroupId)
      else case Group_findOne d i of
             None \<Rightarrow> Inl (BadRequestError (GroupNotFound i))
           | Some g \<Rightarrow> Inr (format g))"

definition findOne :: "db \<Rightarrow> nat \<Rightarrow> group option" where
  "findOne d groupId = Group_findOne d groupId"

subsection \<open>Leaderboards of a group\<close>

text \<open>
  The delta, record and achievement services and the constants \<^verbatim>\<open>PERIODS\<close> and
  \<^verbatim>\<open>ALL_METRICS\<close> are parameters. \<^verbatim>\<open>getMonthlyTopPlayer\<close> returns \<^verbatim>\<open>null\<close> (\<open>None\<close>) for
  a group without members and for an empty leaderboard.
\<close>

definition memberIdsOf :: "db \<Rightarrow> nat \<Rightarrow> nat list" where
  "memberIdsOf d groupId = map m_playerId (filter (\<lambda>m. m_groupId m = groupId) (memberships d))"

definition getMonthlyTopPlayer ::
  "(string \<Rightarrow> string \<Rightarrow> nat list \<Rightarrow> pagination \<Rightarrow> 'r list) \<Rightarrow> db \<Rightarrow> nat \<Rightarrow> error + 'r option" where
  "getMonthlyTopPlayer getGroupLeaderboard d groupId =
     (if groupId = 0 then Inl (BadRequestError InvalidGroupId)
      else
        let memberIds = memberIdsOf d groupId in
        if memberIds = [] then Inr None
        else
          (case getGroupLeaderboard ''overall'' ''month'' memberIds \<lparr>limit = 1, offset = 0\<rparr> of
             [] \<Rightarrow> Inr None
           | monthlyTopPlayer # _ \<Rightarrow> Inr (Some monthlyTopPlayer)))"

definition getDeltas ::
  "string list \<Rightarrow> string list \<Rightarrow> (string \<Rightarrow> string \<Rightarrow> nat list \<Rightarrow> pagination \<Rightarrow> 'r list) \<Rightarrow>
   db \<Rightarrow> nat \<Rightarrow> string \<Rightarrow> string \<Rightarrow> pagination \<Rightarrow> error + 'r list" where
  "getDeltas PERIODS ALL_METRICS getGroupLeaderboard d groupId period metric pg =
     (if groupId = 0 then Inl (BadRequestError InvalidGroupId)
      else if period = [] \<or> period \<notin> set PERIODS then Inl (BadRequestError (InvalidPeriod period))
      else if metric = [] \<or> metric \<notin> set ALL_METRICS then Inl (BadRequestError (InvalidMetric metric))
      else
        let memberIds = memberIdsOf d groupId in
        if memberIds = [] then Inl (BadRequestError NoMembers)
        else Inr (getGroupLeaderboard metric period memberIds pg))"

fun collect :: "(error + 'a) list \<Rightarrow> error + 'a list" where
  "collect [] = Inr []"
| "collect (Inl e # _) = Inl e"
| "collect (Inr x # rs) = (case collect rs of Inl e \<Rightarrow> Inl e | Inr xs \<Rightarrow> Inr (x # xs))"

definition obj_playerId :: "obj \<Rightarrow> nat" where
  "obj_playerId ob = (case field ob ''playerId'' of JNum n \<Rightarrow> nat n | _ \<Rightarrow> 0)"

text \<open>
  \<^verbatim>\<open>getAchievements\<close>: the member of an achievement is looked up in the map keyed by
  player id; destructuring a missing entry is a \<^verbatim>\<open>TypeError\<close>.
\<close>

definition getAchievements ::
  "(nat list \<Rightarrow> pagination \<Rightarrow> obj list) \<Rightarrow> db \<Rightarrow> nat \<Rightarrow> pagination \<Rightarrow> error + obj list" where
  "getAchievements findAllForGroup d groupId pg =
     (if groupId = 0 then Inl (BadRequestError InvalidGroupId)
      else
        let ms = groupMemberships d groupId in
        if ms = [] then Inl (BadRequestError NoMembers)
        else
          let members = map fst ms;
              memberMap = map_of (rev (map (\<lambda>p. (p_id p, p)) members));
              achievements = findAllForGroup (map p_id members) pg
          in collect
               (map (\<lambda>a. case memberMap (obj_playerId a) of
                            None \<Rightarrow> Inl TypeError
                          | Some p \<Rightarrow>
                              Inr (assign a ''player''
                                     (JObj [(''id'', JNum (int (p_id p))),
                                            (''username'', JStr (p_username p)),
                                            (''displayName'', JStr (p_displayName p)),
                                            (''type'', JStr (p_type p))])))
                  achievements))"

definition getRecords ::
  "string list \<Rightarrow> string list \<Rightarrow> (string \<Rightarrow> string \<Rightarrow> nat list \<Rightarrow> pagination \<Rightarrow> 'r list) \<Rightarrow>
   db \<Rightarrow> nat \<Rightarrow> string \<Rightarrow> string \<Rightarrow> pagination \<Rightarrow> error + 'r list" where
  "getRecords PERIODS ALL_METRICS getGroupLeaderboard d groupId metric period pg =
     (if groupId = 0 then Inl (BadRequestError InvalidGroupId)
      else if period = [] \<or> period \<notin> set PERIODS then Inl (BadRequestError (InvalidPeriod period))
      else if metric = [] \<or> metric \<notin> set ALL_METRICS then Inl (BadRequestError (InvalidMetric metric))
      else
        let memberIds = memberIdsOf d groupId in
        if memberIds = [] then Inl (BadRequestError NoMembers)
        else Inr (getGroupLeaderboard metric period memberIds pg))"

subsection \<open>The member list\<close>

text \<open>
  The raw query of \<^verbatim>\<open>getMembersList\<close>: for every listed player the snapshot rows whose
  \<^verbatim>\<open>createdAt\<close> is the latest of that player, ordered by player id.
\<close>

definition latestSnapshots :: "db \<Rightarrow> nat list \<Rightarrow> snapshot list" where
  "latestSnapshots d ids =
     sort_key s_playerId
       (filter
          (\<lambda>s. s_playerId s \<in> set ids \<and>
               list_all (\<lambda>q. if s_playerId q = s_playerId s then s_createdAt q \<le> s_createdAt s
                              else True) (snapshots d))
          (snapshots d))"

text \<open>\<^verbatim>\<open>_.mapValues(_.keyBy(rows, 'playerId'), ...)\<close>: a later row of a key replaces an earlier one.\<close>

definition experienceMap :: "snapshot list \<Rightarrow> nat \<Rightarrow> int option" where
  "experienceMap rows = map_of (rev (map (\<lambda>s. (s_playerId s, s_overallExperience s)) rows))"

text \<open>\<^verbatim>\<open>experienceMap[member.id] || 0\<close>.\<close>

definition orZero :: "int option \<Rightarrow> int" where
  "orZero v = (case v of None \<Rightarrow> 0 | Some n \<Rightarrow> if n = 0 then 0 else n)"

definition obj_role :: "obj \<Rightarrow> string" where
  "obj_role ob = (case field ob ''role'' of JStr r \<Rightarrow> r | _ \<Rightarrow> [])"

definition memberObject :: "(nat \<Rightarrow> int option) \<Rightarrow> player \<times> membership \<Rightarrow> obj" where
  "memberObject em pm =
     assign (assign (player_toJSON (fst pm)) ''role'' (JStr (m_role (snd pm))))
       ''overallExperience'' (JNum (orZero (em (p_id (fst pm)))))"

text \<open>
  \<^verbatim>\<open>getMembersList\<close>; the collation \<^verbatim>\<open>String.prototype.localeCompare\<close> of the runtime is a
  parameter.
\<close>

definition getMembersList :: "(string \<Rightarrow> string \<Rightarrow> int) \<Rightarrow> db \<Rightarrow> nat \<Rightarrow> error + obj list" where
  "getMembersList localeCompare d i =
     (if i = 0 then Inl (BadRequestError InvalidGroupId)
      else case Group_findOne d i of
        None \<Rightarrow> Inl (BadRequestError (GroupNotFound i))
      | Some g \<Rightarrow>
          let ms = groupMemberships d i in
          if ms = [] then Inr []
          else
            let em = experienceMap (latestSnapshots d (map (\<lambda>pm. p_id (fst pm)) ms))
            in Inr (sort_cmp (\<lambda>a b. localeCompare (obj_role a) (obj_role b))
                      (map (memberObject em) ms)))"

subsection \<open>The score of a group\<close>

text \<open>
  \<^verbatim>\<open>members.reduce((acc, cur) => acc + cur, 0) / members.length\<close>. The elements are the
  member objects. Adding a plain object to a number or to a string converts both operands
  to strings (the object to \<^verbatim>\<open>[object Object]\<close>) and concatenates them. The division
  converts the sum to a number: a string that is not a numeric literal becomes \<^verbatim>\<open>NaN\<close>,
  and so does \<^verbatim>\<open>0 / 0\<close>. Of the numeric literals only the unsigned decimal integers are
  modelled; no string built here is one. A finite quotient is kept exact, as numerator
  and denominator.
\<close>

datatype jsval = JsNumber int | JsString string

datatype jsnum = Ratio int nat | NaN | Infinity bool

fun digits :: "nat \<Rightarrow> string" where
  "digits n = (if n < 10 then [char_of (48 + n)] else digits (n div 10) @ [char_of (48 + n mod 10)])"

declare digits.simps [simp del]

definition js_toString :: "jsval \<Rightarrow> string" where
  "js_toString v =
     (case v of
        JsNumber n \<Rightarrow> (if n < 0 then CHR ''-'' # digits (nat (- n)) else digits (nat n))
      | JsString s \<Rightarrow> s)"

definition isDigit :: "char \<Rightarrow> bool" where
  "isDigit c = (48 \<le> (of_char c :: nat) \<and> (of_char c :: nat) \<le> 57)"

definition js_toNumber :: "jsval \<Rightarrow> int option" where
  "js_toNumber v =
     (case v of
        JsNumber n \<Rightarrow> Some n
      | JsString s \<Rightarrow>
          if s \<noteq> [] \<and> list_all isDigit s
          then Some (int (foldl (\<lambda>acc c. 10 * acc + (of_char c - 48)) 0 s))
          else None)"

definition js_plus_object :: "jsval \<Rightarrow> obj \<Rightarrow> jsval" where
  "js_plus_object acc cur = JsString (js_toString acc @ ''[object Object]'')"

definition js_divide :: "jsval \<Rightarrow> nat \<Rightarrow> jsnum" where
  "js_divide a n =
     (case js_toNumber a of
        None \<Rightarrow> NaN
      | Some p \<Rightarrow> if n = 0 then (if p = 0 then NaN else Infinity (0 < p)) else Ratio p n)"

definition js_ge :: "jsnum \<Rightarrow> int \<Rightarrow> bool" where
  "js_ge x c = (case x of Ratio p n \<Rightarrow> c * int n \<le> p | NaN \<Rightarrow> False | Infinity pos \<Rightarrow> pos)"

record competition =
  c_startsAt :: nat
  c_endsAt :: nat

text \<open>
  \<^verbatim>\<open>calculateScore\<close>; the competition service and the clock are parameters. An error of
  \<^verbatim>\<open>getMembersList\<close> is passed on.
\<close>

definition calculateScore ::
  "(string \<Rightarrow> string \<Rightarrow> int) \<Rightarrow> (nat \<Rightarrow> pagination \<Rightarrow> competition list) \<Rightarrow> nat \<Rightarrow>
   db \<Rightarrow> group \<Rightarrow> error + int" where
  "calculateScore localeCompare findForGroup now d g =
     (case getMembersList localeCompare d (g_id g) of
        Inl e \<Rightarrow> Inl e
      | Inr members \<Rightarrow>
          let competitions = findForGroup (g_id g) \<lparr>limit = 10000, offset = 0\<rparr>;
              averageOverallExp =
                js_divide (foldl js_plus_object (JsNumber 0) members) (length members)
          in
            if members = [] then Inr 0
            else
              Inr ((if 1 \<le> length (filter (\<lambda>m. field m ''role'' = JStr ''leader'') members)
                    then 30 else 0)
                 + (if 10 \<le> length members then 20 else 0)
                 + (if 50 \<le> length members then 40 else 0)
                 + (if js_ge averageOverallExp 30000000 then 30 else 0)
                 + (if js_ge averageOverallExp 100000000 then 60 else 0)
                 + (if (case g_clanChat g of None \<Rightarrow> False | Some c \<Rightarrow> 0 < length c)
                    then 50 else 0)
                 + (if g_verified g then 100 else 0)
                 + (if 1 \<le> length (filter (\<lambda>c. c_startsAt c \<le> now \<and> now \<le> c_endsAt c)
                                       competitions)
                    then 50 else 0)
                 + (if 1 \<le> length (filter (\<lambda>c. now \<le> c_startsAt c) competitions)
                    then 30 else 0)))"

subsection \<open>Collaborators of the mutations\<close>

text \<open>
  The functions of the player service and of the verification utility that the module
  calls, the pair \<^verbatim>\<open>generateVerification\<close> draws and the clock.
\<close>

record services =
  standardize :: "string \<Rightarrow> string"
  sanitize :: "string \<Rightarrow> string"
  isValidUsername :: "string \<Rightarrow> bool"
  verifyCode :: "string \<Rightarrow> string \<Rightarrow> bool"
  generateVerification :: "string \<times> string"
  now :: nat

definition Player_findByUsername :: "db \<Rightarrow> string \<Rightarrow> player option" where
  "Player_findByUsername d u = find (\<lambda>p. p_username p = u) (players d)"

definition nextId :: "nat list \<Rightarrow> nat" where
  "nextId ids = Suc (fold max ids 0)"

text \<open>
  Modelled from the spec: \<^verbatim>\<open>playerService.findAllOrCreate\<close> is not part of the given
  source. The spec names it player lookup/creation, and a player's username is the
  canonical (standardized) form of the name: each name, in the order given, yields the
  player stored under its standardized username, created with a fresh id if there is
  none.
\<close>

definition findOrCreate :: "services \<Rightarrow> string \<Rightarrow> db \<Rightarrow> player \<times> db" where
  "findOrCreate sv username d =
     (case Player_findByUsername d (standardize sv username) of
        Some p \<Rightarrow> (p, d)
      | None \<Rightarrow>
          let p = \<lparr>p_id = nextId (map p_id (players d)),
                   p_username = standardize sv username,
                   p_displayName = sanitize sv username,
                   p_type = ''unknown'',
                   p_updatedAt = now sv\<rparr>
          in (p, d\<lparr>players := players d @ [p]\<rparr>))"

fun findAllOrCreate :: "services \<Rightarrow> string list \<Rightarrow> db \<Rightarrow> player list \<times> db" where
  "findAllOrCreate sv [] d = ([], d)"
| "findAllOrCreate sv (u # us) d =
     (case findOrCreate sv u d of
        (p, d1) \<Rightarrow> (case findAllOrCreate sv us d1 of (ps, d2) \<Rightarrow> (p # ps, d2)))"

text \<open>
  Modelled from the spec: \<^verbatim>\<open>playerService.findAll\<close> is not part of the given source; it
  is the lookup without creation, the stored players whose username is the standardized
  form of one of the names.
\<close>

definition findAll :: "services \<Rightarrow> db \<Rightarrow> string list \<Rightarrow> player list" where
  "findAll sv d usernames =
     filter (\<lambda>p. p_username p \<in> set (map (standardize sv) usernames)) (players d)"

subsection \<open>The Membership table\<close>

text \<open>
  Modelled from the spec: the declaration of the Membership table and of the association
  between Group and Player is not part of the given source. By the spec's data model a
  membership is the composite relation (groupId, playerId) with a role, the pair is its
  key, the role defaults to "member", and removing a group removes its memberships. So
  an insert with \<^verbatim>\<open>ignoreDuplicates\<close> skips a row whose key is taken, an insert without it
  is refused as a whole when a key would be taken twice, and the association's
  \<^verbatim>\<open>add\<close> inserts the players that have no row and, given a role to force, sets that role
  on the rows that exist.
\<close>

definition defaultRole :: string where
  "defaultRole = ''member''"

definition hasRow :: "membership list \<Rightarrow> nat \<Rightarrow> nat \<Rightarrow> bool" where
  "hasRow rows gid pid = list_ex (\<lambda>r. m_groupId r = gid \<and> m_playerId r = pid) rows"

fun bulkCreate_ignoreDuplicates :: "membership list \<Rightarrow> membership list \<Rightarrow> membership list" where
  "bulkCreate_ignoreDuplicates rows [] = rows"
| "bulkCreate_ignoreDuplicates rows (n # ns) =
     bulkCreate_ignoreDuplicates
       (if hasRow rows (m_groupId n) (m_playerId n) then rows else rows @ [n]) ns"

definition association_add ::
  "nat \<Rightarrow> player list \<Rightarrow> string option \<Rightarrow> membership list \<Rightarrow> error + membership list" where
  "association_add gid ps through rows =
     (let ids = map p_id ps;
          unassociated = filter (\<lambda>pid. \<not> hasRow rows gid pid) ids;
          updated =
            (case through of
               None \<Rightarrow> rows
             | Some role \<Rightarrow>
                 map (\<lambda>r. if m_groupId r = gid \<and> m_playerId r \<in> set ids
                           then r\<lparr>m_role := role\<rparr> else r) rows)
      in if distinct unassociated
         then Inr (updated @
                   map (\<lambda>pid. \<lparr>m_playerId = pid, m_groupId = gid,
                                 m_role = (case through of None \<Rightarrow> defaultRole | Some role \<Rightarrow> role)\<rparr>)
                     unassociated)
         else Inl UniqueConstraintError)"

text \<open>The association's \<^verbatim>\<open>remove\<close>: the number of rows deleted, and the rows left.\<close>

definition association_remove ::
  "nat \<Rightarrow> player list \<Rightarrow> membership list \<Rightarrow> nat \<times> membership list" where
  "association_remove gid ps rows =
     (let doomed = (\<lambda>r. m_groupId r = gid \<and> m_playerId r \<in> set (map p_id ps))
      in (length (filter doomed rows), filter (\<lambda>r. \<not> doomed r) rows))"

definition updateGroup :: "nat \<Rightarrow> (group \<Rightarrow> group) \<Rightarrow> db \<Rightarrow> db" where
  "updateGroup i f d = d\<lparr>groups := map (\<lambda>g. if g_id g = i then f g else g) (groups d)\<rparr>"

text \<open>\<^verbatim>\<open>group.changed('updatedAt', true); group.save()\<close>.\<close>

definition touch :: "services \<Rightarrow> nat \<Rightarrow> db \<Rightarrow> db" where
  "touch sv i d = updateGroup i (\<lambda>g. g\<lparr>g_updatedAt := now sv\<rparr>) d"

subsection \<open>Members of a group\<close>

definition membership_toJSON :: "membership \<Rightarrow> obj" where
  "membership_toJSON m =
     [(''playerId'', JNum (int (m_playerId m))),
      (''groupId'', JNum (int (m_groupId m))),
      (''role'', JStr (m_role m))]"

text \<open>
  A player read through \<^verbatim>\<open>group.getMembers()\<close> carries its membership row in the field
  \<^verbatim>\<open>memberships\<close>; \<open>formatMember\<close> is
  \<^verbatim>\<open>_.omit({ ...member.toJSON(), role: member.memberships.role }, ['memberships'])\<close>.
\<close>

definition member_toJSON :: "player \<times> membership \<Rightarrow> obj" where
  "member_toJSON pm = assign (player_toJSON (fst pm)) ''memberships'' (JObj (membership_toJSON (snd pm)))"

definition formatMember :: "player \<times> membership \<Rightarrow> obj" where
  "formatMember pm = omit (assign (member_toJSON pm) ''role'' (JStr (m_role (snd pm)))) [''memberships'']"

definition getMembers :: "db \<Rightarrow> nat \<Rightarrow> obj list" where
  "getMembers d groupId =
     map (\<lambda>pm. assign (player_toJSON (fst pm)) ''role'' (JStr (m_role (snd pm))))
       (groupMemberships d groupId)"

definition roleOrMember :: "string option \<Rightarrow> string" where
  "roleOrMember r = (case r of None \<Rightarrow> ''member'' | Some s \<Rightarrow> if s = [] then ''member'' else s)"

text \<open>
  \<^verbatim>\<open>setMembers\<close>. The players are those of the deduplicated names, and the role of the
  player at index \<open>i\<close> is read from \<^verbatim>\<open>members[i]\<close>, the element at index \<open>i\<close> of the
  argument as given; there are at most as many players as elements, so the index is in
  range.
\<close>

definition setMembers ::
  "services \<Rightarrow> group option \<Rightarrow> member_input list \<Rightarrow> db \<Rightarrow> (error + obj list) \<times> db" where
  "setMembers sv grp members d =
     (case grp of
        None \<Rightarrow> (Inl (BadRequestError InvalidGroup), d)
      | Some g \<Rightarrow>
          (let uniqueNames = uniqBy (map mi_username members) toLowerCase in
           case findAllOrCreate sv uniqueNames d of
             (ps, d1) \<Rightarrow>
               let newMemberships =
                     map (\<lambda>px. \<lparr>m_playerId = p_id (fst px), m_groupId = g_id g,
                                 m_role = roleOrMember (mi_role (members ! snd px))\<rparr>)
                       (zip ps [0 ..< length ps]);
                   d2 = d1\<lparr>memberships := filter (\<lambda>m. m_groupId m \<noteq> g_id g) (memberships d1)\<rparr>;
                   d3 = d2\<lparr>memberships := bulkCreate_ignoreDuplicates (memberships d2) newMemberships\<rparr>
               in (Inr (map formatMember (groupMemberships d3 (g_id g))), d3)))"

subsection \<open>Mutations\<close>

text \<open>\<^verbatim>\<open>x && x.length\<close> for an optional string: neither \<^verbatim>\<open>undefined\<close> nor empty.\<close>

definition truthy :: "string option \<Rightarrow> bool" where
  "truthy s = (case s of None \<Rightarrow> False | Some t \<Rightarrow> t \<noteq> [])"

definition orEmpty :: "'a list option \<Rightarrow> 'a list" where
  "orEmpty xs = (case xs of None \<Rightarrow> [] | Some ys \<Rightarrow> ys)"

definition sanitizedClanChat :: "services \<Rightarrow> string option \<Rightarrow> string option" where
  "sanitizedClanChat sv clanChat =
     (case clanChat of None \<Rightarrow> None | Some c \<Rightarrow> if c \<noteq> [] then Some (sanitize sv c) else None)"

definition invalidUsernames :: "services \<Rightarrow> member_input list \<Rightarrow> string list" where
  "invalidUsernames sv members = filter (\<lambda>u. \<not> isValidUsername sv u) (map mi_username members)"

text \<open>
  \<^verbatim>\<open>create\<close>. The fresh id and the defaults of a new row (unverified, score 0) stand
  for the declaration of the Group table, which is not part of the given source; the
  instance that \<^verbatim>\<open>Group.create\<close> returns still carries the verification code it was
  built from.
\<close>

definition create ::
  "services \<Rightarrow> string \<Rightarrow> string option \<Rightarrow> member_input list option \<Rightarrow> db \<Rightarrow> (error + obj) \<times> db" where
  "create sv name clanChat members d =
     (if name = [] then (Inl (BadRequestError InvalidGroupName), d)
      else if Group_findByName d (sanitizeName name) \<noteq> None
        then (Inl (BadRequestError (NameTaken (sanitizeName name))), d)
      else if (case members of
                 None \<Rightarrow> False
               | Some ms \<Rightarrow> length (filter (\<lambda>m. mi_username m \<noteq> []) ms) \<noteq> length ms)
        then (Inl (BadRequestError MissingUsername), d)
      else if (case members of None \<Rightarrow> False | Some ms \<Rightarrow> invalidUsernames sv ms \<noteq> [])
        then (Inl (BadRequestError (InvalidUsernames (invalidUsernames sv (orEmpty members)))), d)
      else
        let g = \<lparr>g_id = nextId (map g_id (groups d)),
                 g_name = sanitizeName name,
                 g_clanChat = sanitizedClanChat sv clanChat,
                 g_verificationHash = snd (generateVerification sv),
                 g_verified = False,
                 g_score = 0,
                 g_createdAt = now sv,
                 g_updatedAt = now sv\<rparr>;
            d1 = d\<lparr>groups := groups d @ [g]\<rparr>;
            formatted = omit (assign (group_toJSON g) ''verificationCode''
                                (JStr (fst (generateVerification sv))))
                          [''verificationHash'']
        in case members of
             None \<Rightarrow> (Inr (assign formatted ''members'' (JArr [])), d1)
           | Some ms \<Rightarrow>
               (case setMembers sv (Some g) ms d1 of
                  (Inl e, d2) \<Rightarrow> (Inl e, d2)
                | (Inr newMembers, d2) \<Rightarrow>
                    (Inr (assign formatted ''members'' (JArr (map JObj newMembers))), d2)))"

text \<open>
  \<^verbatim>\<open>edit\<close>. The update is
  \<^verbatim>\<open>group.update({ name: name && sanitizeName(name), clanChat: clanChat && clanChat.length ? ... : null })\<close>:
  the store leaves a field alone whose new value is \<^verbatim>\<open>undefined\<close> and writes every
  other value, \<^verbatim>\<open>null\<close> included.
\<close>

definition edit ::
  "services \<Rightarrow> nat \<Rightarrow> string option \<Rightarrow> string option \<Rightarrow> string \<Rightarrow> member_input list option \<Rightarrow>
   db \<Rightarrow> (error + obj) \<times> db" where
  "edit sv i name clanChat verificationCode members d =
     (if i = 0 then (Inl (BadRequestError InvalidGroupId), d)
      else if verificationCode = [] then (Inl (BadRequestError InvalidVerificationCode), d)
      else if \<not> truthy name \<and> members = None \<and> \<not> truthy clanChat
        then (Inl (BadRequestError NothingToEdit), d)
      else if truthy name \<and>
              (case Group_findByName d (sanitizeName (orEmpty name)) of
                 None \<Rightarrow> False
               | Some matchingGroup \<Rightarrow> g_id matchingGroup \<noteq> i)
        then (Inl (BadRequestError (NameTaken (sanitizeName (orEmpty name)))), d)
      else case Group_findOne d i of
        None \<Rightarrow> (Inl (BadRequestError (GroupNotFound i)), d)
      | Some g \<Rightarrow>
          if \<not> verifyCode sv (g_verificationHash g) verificationCode
          then (Inl (BadRequestError IncorrectVerificationCode), d)
          else
            (case (case members of
                     Some ms \<Rightarrow>
                       if invalidUsernames sv ms \<noteq> []
                       then (Inl (BadRequestError (InvalidUsernames (invalidUsernames sv ms))), d)
                       else setMembers sv (Some g) ms d
                   | None \<Rightarrow>
                       (Inr (map (\<lambda>pm. assign (member_toJSON pm) ''memberships'' JUndefined)
                               (groupMemberships d i)), d)) of
               (Inl e, d1) \<Rightarrow> (Inl e, d1)
             | (Inr groupMembers, d1) \<Rightarrow>
                 let g' =
                       (if truthy name \<or> truthy clanChat
                        then g\<lparr>g_name :=
                                  (case name of
                                     None \<Rightarrow> g_name g
                                   | Some n \<Rightarrow> if n = [] then n else sanitizeName n),
                                g_clanChat := sanitizedClanChat sv clanChat,
                                g_updatedAt := now sv\<rparr>
                        else g);
                     d2 = updateGroup i (\<lambda>_. g') d1
                 in (Inr (assign (format g') ''members'' (JArr (map JObj groupMembers))), d2)))"

text \<open>\<^verbatim>\<open>destroy\<close>: the group goes, and with it its memberships.\<close>

definition destroy :: "services \<Rightarrow> nat \<Rightarrow> string \<Rightarrow> db \<Rightarrow> (error + string) \<times> db" where
  "destroy sv i verificationCode d =
     (if i = 0 then (Inl (BadRequestError InvalidGroupId), d)
      else if verificationCode = [] then (Inl (BadRequestError InvalidVerificationCode), d)
      else case Group_findOne d i of
        None \<Rightarrow> (Inl (BadRequestError (GroupNotFound i)), d)
      | Some g \<Rightarrow>
          if \<not> verifyCode sv (g_verificationHash g) verificationCode
          then (Inl (BadRequestError IncorrectVerificationCode), d)
          else (Inr (g_name g),
                d\<lparr>groups := filter (\<lambda>x. g_id x \<noteq> i) (groups d),
                  memberships := filter (\<lambda>m. m_groupId m \<noteq> i) (memberships d)\<rparr>))"

text \<open>
  \<^verbatim>\<open>addMembers\<close>. A missing and an empty list are both refused, so the list is not
  optional here.
\<close>

definition addMembers ::
  "services \<Rightarrow> nat \<Rightarrow> string \<Rightarrow> member_input list \<Rightarrow> db \<Rightarrow> (error + obj list) \<times> db" where
  "addMembers sv i verificationCode members d =
     (if i = 0 then (Inl (BadRequestError InvalidGroupId), d)
      else if verificationCode = [] then (Inl (BadRequestError InvalidVerificationCode), d)
      else if members = [] then (Inl (BadRequestError InvalidMembersList), d)
      else if length (filter (\<lambda>m. mi_username m \<noteq> []) members) \<noteq> length members
        then (Inl (BadRequestError MissingUsername), d)
      else case Group_findOne d i of
        None \<Rightarrow> (Inl (BadRequestError (GroupNotFound i)), d)
      | Some g \<Rightarrow>
          if \<not> verifyCode sv (g_verificationHash g) verificationCode
          then (Inl (BadRequestError IncorrectVerificationCode), d)
          else
            let existingIds = map (\<lambda>pm. p_id (fst pm)) (groupMemberships d i) in
            case findAllOrCreate sv (map mi_username members) d of
              (ps, d1) \<Rightarrow>
                let newPlayers = filter (\<lambda>p. p_id p \<notin> set existingIds) ps in
                if newPlayers = [] then (Inl (BadRequestError AllAlreadyMembers), d1)
                else
                  (case association_add i newPlayers None (memberships d1) of
                     Inl e \<Rightarrow> (Inl e, d1)
                   | Inr rows \<Rightarrow>
                       let d2 = d1\<lparr>memberships := rows\<rparr>;
                           leaderUsernames =
                             map (\<lambda>m. standardize sv (mi_username m))
                               (filter (\<lambda>m. mi_role m = Some ''leader'') members)
                       in
                         (case (if leaderUsernames \<noteq> []
                                then association_add i
                                       (filter (\<lambda>p. p_username p \<in> set leaderUsernames)
                                          (map fst (groupMemberships d2 i)))
                                       (Some ''leader'') (memberships d2)
                                else Inr (memberships d2)) of
                            Inl e \<Rightarrow> (Inl e, d2)
                          | Inr rows' \<Rightarrow>
                              let d3 = touch sv i (d2\<lparr>memberships := rows'\<rparr>)
                              in (Inr (map formatMember (groupMemberships d3 i)), d3))))"

definition removeMembers ::
  "services \<Rightarrow> nat \<Rightarrow> string \<Rightarrow> string list \<Rightarrow> db \<Rightarrow> (error + nat) \<times> db" where
  "removeMembers sv i verificationCode usernames d =
     (if i = 0 then (Inl (BadRequestError InvalidGroupId), d)
      else if verificationCode = [] then (Inl (BadRequestError InvalidVerificationCode), d)
      else if usernames = [] then (Inl (BadRequestError InvalidMembersList), d)
      else case Group_findOne d i of
        None \<Rightarrow> (Inl (BadRequestError (GroupNotFound i)), d)
      | Some g \<Rightarrow>
          if \<not> verifyCode sv (g_verificationHash g) verificationCode
          then (Inl (BadRequestError IncorrectVerificationCode), d)
          else
            let playersToRemove = findAll sv d usernames in
            if playersToRemove = [] then (Inl (BadRequestError NoValidPlayers), d)
            else
              (case association_remove i playersToRemove (memberships d) of
                 (removedPlayersCount, rows) \<Rightarrow>
                   let d1 = d\<lparr>memberships := rows\<rparr> in
                   if removedPlayersCount = 0 then (Inl (BadRequestError NoneWereMembers), d1)
                   else (Inr removedPlayersCount, touch sv i d1)))"

text \<open>
  \<^verbatim>\<open>changeRole\<close>. The membership is the first row of the group whose player has the
  standardized username; \<^verbatim>\<open>membership.update({ role })\<close> writes the row of its key
  (\<open>setRole\<close> is its effect on one row of the table).
\<close>

definition setRole :: "membership \<Rightarrow> string \<Rightarrow> membership \<Rightarrow> membership" where
  "setRole m role r =
     (if m_groupId r = m_groupId m \<and> m_playerId r = m_playerId m then r\<lparr>m_role := role\<rparr> else r)"

definition findMembership :: "db \<Rightarrow> nat \<Rightarrow> string \<Rightarrow> (player \<times> membership) option" where
  "findMembership d i u = find (\<lambda>pm. p_username (fst pm) = u) (groupMemberships d i)"

definition changeRole ::
  "services \<Rightarrow> nat \<Rightarrow> string \<Rightarrow> string \<Rightarrow> string \<Rightarrow> db \<Rightarrow> (error + obj) \<times> db" where
  "changeRole sv i username role verificationCode d =
     (if i = 0 then (Inl (BadRequestError InvalidGroupId), d)
      else if username = [] then (Inl (BadRequestError InvalidUsername), d)
      else if role = [] then (Inl (BadRequestError InvalidGroupRole), d)
      else if verificationCode = [] then (Inl (BadRequestError InvalidVerificationCode), d)
      else case Group_findOne d i of
        None \<Rightarrow> (Inl (BadRequestError (GroupNotFound i)), d)
      | Some g \<Rightarrow>
          if \<not> verifyCode sv (g_verificationHash g) verificationCode
          then (Inl (BadRequestError IncorrectVerificationCode), d)
          else
            (case findMembership d i (standardize sv username) of
               None \<Rightarrow> (Inl (BadRequestError (NotAMember username (g_name g))), d)
             | Some pm \<Rightarrow>
                 let oldRole = m_role (snd pm) in
                 if m_role (snd pm) = role
                 then (Inl (BadRequestError (AlreadyHasRole username role)), d)
                 else
                   let d1 = d\<lparr>memberships := map (setRole (snd pm) role) (memberships d)\<rparr>
                   in (Inr [(''player'', JObj (assign (player_toJSON (fst pm)) ''role'' (JStr role))),
                            (''newRole'', JStr role),
                            (''oldRole'', JStr oldRole)],
                       touch sv i d1)))"

text \<open>
  \<^verbatim>\<open>refreshScores\<close>: every group is scored on the store as it is; a group whose score
  differs is written. The scores are computed from memberships, players, snapshots and
  competitions only, so the order of the writes does not matter.
\<close>

definition refreshScores ::
  "(string \<Rightarrow> string \<Rightarrow> int) \<Rightarrow> (nat \<Rightarrow> pagination \<Rightarrow> competition list) \<Rightarrow> services \<Rightarrow>
   db \<Rightarrow> (error + unit) \<times> db" where
  "refreshScores localeCompare findForGroup sv d =
     (let scored = map (\<lambda>g. (g, calculateScore localeCompare findForGroup (now sv) d g)) (groups d);
          d' = fold (\<lambda>gr acc.
                      case snd gr of
                        Inl e \<Rightarrow> acc
                      | Inr newScore \<Rightarrow>
                          if newScore \<noteq> g_score (fst gr)
                          then updateGroup (g_id (fst gr))
                                 (\<lambda>x. x\<lparr>g_score := newScore, g_updatedAt := now sv\<rparr>) acc
                          else acc)
                 scored d
      in (case collect (map snd scored) of Inl e \<Rightarrow> Inl e | Inr _ \<Rightarrow> Inr (), d'))"

subsection \<open>Predicates of the properties\<close>

text \<open>A string without two spaces in a row.\<close>

definition singleSpaced :: "string \<Rightarrow> bool" where
  "singleSpaced s = successively (\<lambda>a b. \<not> (a = CHR '' '' \<and> b = CHR '' '')) s"

text \<open>A returned object omits the field \<^verbatim>\<open>verificationHash\<close>.\<close>

definition omitsHash :: "obj \<Rightarrow> bool" where
  "omitsHash ob = (''verificationHash'' \<notin> fst ` set ob)"

text \<open>
  The invariant of the Membership table: no two rows share the pair (groupId, playerId).
  \<open>rowCount\<close> counts the rows of a pair; \<open>alreadyMember\<close> says that the player stored
  under the standardized username of an entry is a member of the group.
\<close>

definition membershipKey :: "membership \<Rightarrow> nat \<times> nat" where
  "membershipKey m = (m_groupId m, m_playerId m)"

definition uniqueMemberships :: "db \<Rightarrow> bool" where
  "uniqueMemberships d = distinct (map membershipKey (memberships d))"

definition alreadyMember :: "services \<Rightarrow> db \<Rightarrow> nat \<Rightarrow> member_input \<Rightarrow> bool" where
  "alreadyMember sv d i m =
     (case Player_findByUsername d (standardize sv (mi_username m)) of
        None \<Rightarrow> False
      | Some p \<Rightarrow> p_id p \<in> set (map (\<lambda>pm. p_id (fst pm)) (groupMemberships d i)))"

definition rowCount :: "db \<Rightarrow> nat \<Rightarrow> nat \<Rightarrow> nat" where
  "rowCount d gid pid = length (filter (\<lambda>m. m_groupId m = gid \<and> m_playerId m = pid) (memberships d))"

text \<open>A competition is going on at a time, or still to start, as \<^verbatim>\<open>calculateScore\<close> tests it.\<close>

definition ongoing :: "nat \<Rightarrow> competition \<Rightarrow> bool" where
  "ongoing t c = (c_startsAt c \<le> t \<and> t \<le> c_endsAt c)"

definition upcoming :: "nat \<Rightarrow> competition \<Rightarrow> bool" where
  "upcoming t c = (t \<le> c_startsAt c)"

text \<open>
  The comparison that \<^verbatim>\<open>String.prototype.localeCompare\<close> makes of two words of
  letters in the default collation of the runtime: alphabetical without regard to case
  (so "alpha" comes before "Zeta"), and of two words that differ in case only, the one
  with the lower-case letter at the first difference comes first. \<open>caseMarks\<close> marks the
  upper-case letters of a word.
\<close>

definition caseMarks :: "string \<Rightarrow> nat list" where
  "caseMarks s = map (\<lambda>c. if toLowerCase_char c = c then 0 else 1) s"

definition collate :: "string \<Rightarrow> string \<Rightarrow> int" where
  "collate a b =
     (if toLowerCase a < toLowerCase b then - 1
      else if toLowerCase b < toLowerCase a then 1
      else if caseMarks a < caseMarks b then - 1
      else if caseMarks b < caseMarks a then 1
      else 0)"

subsection \<open>An example store\<close>

text \<open>
  Three groups, two players and three memberships; the verification utility of the
  example accepts the code whose hash is stored.
\<close>

definition ex_services :: services where
  "ex_services =
     \<lparr>standardize = toLowerCase, sanitize = (\<lambda>s. s), isValidUsername = (\<lambda>s. s \<noteq> []),
      verifyCode = (\<lambda>h c. h = ''hash of '' @ c),
      generateVerification = (''code'', ''hash of code''),
      now = 100\<rparr>"

definition ex_group :: "nat \<Rightarrow> string \<Rightarrow> string option \<Rightarrow> int \<Rightarrow> group" where
  "ex_group i n cc sc =
     \<lparr>g_id = i, g_name = n, g_clanChat = cc, g_verificationHash = ''hash of secret'',
      g_verified = False, g_score = sc, g_createdAt = 1, g_updatedAt = 1\<rparr>"

definition ex_player :: "nat \<Rightarrow> string \<Rightarrow> player" where
  "ex_player i u =
     \<lparr>p_id = i, p_username = u, p_displayName = u, p_type = ''regular'', p_updatedAt = 1\<rparr>"

definition ex_db :: db where
  "ex_db =
     \<lparr>groups = [ex_group 1 ''Alpha'' (Some ''alpha cc'') 10, ex_group 2 ''Beta'' None 50,
                ex_group 3 ''Gamma'' None 0],
      memberships =
        [\<lparr>m_playerId = 1, m_groupId = 1, m_role = ''member''\<rparr>,
         \<lparr>m_playerId = 1, m_groupId = 2, m_role = ''leader''\<rparr>,
         \<lparr>m_playerId = 2, m_groupId = 1, m_role = ''leader''\<rparr>],
      players = [ex_player 1 ''alice'', ex_player 2 ''bob''],
      snapshots =
        [\<lparr>s_playerId = 1, s_createdAt = 5, s_overallExperience = 100\<rparr>,
         \<lparr>s_playerId = 1, s_createdAt = 7, s_overallExperience = 200\<rparr>]\<rparr>"

definition ex_leaderboard :: "string \<Rightarrow> string \<Rightarrow> nat list \<Rightarrow> pagination \<Rightarrow> obj list" where
  "ex_leaderboard metric period ids pg = map (\<lambda>i. [(''playerId'', JNum (int i))]) ids"

text \<open>
  A verified group with a clan chat and fifty members, one of them a leader, each with
  one snapshot of 200,000,000 overall experience; one competition that is going on at
  time 100 and one that starts later.
\<close>

definition ex_full_group :: group where
  "ex_full_group =
     \<lparr>g_id = 1, g_name = ''Full'', g_clanChat = Some ''full cc'',
      g_verificationHash = ''hash of secret'', g_verified = True, g_score = 0,
      g_createdAt = 1, g_updatedAt = 1\<rparr>"

definition ex_full_db :: db where
  "ex_full_db =
     \<lparr>groups = [ex_full_group],
      memberships =
        map (\<lambda>k. \<lparr>m_playerId = k, m_groupId = 1,
                     m_role = (if k = 1 then ''leader'' else ''member'')\<rparr>) [1 ..< 51],
      players = map (\<lambda>k. ex_player k (digits k)) [1 ..< 51],
      snapshots =
        map (\<lambda>k. \<lparr>s_playerId = k, s_createdAt = 1, s_overallExperience = 200000000\<rparr>)
          [1 ..< 51]\<rparr>"

definition ex_competitions :: "nat \<Rightarrow> pagination \<Rightarrow> competition list" where
  "ex_competitions gid pg =
     [\<lparr>c_startsAt = 50, c_endsAt = 150\<rparr>, \<lparr>c_startsAt = 200, c_endsAt = 300\<rparr>]"

text \<open>Two lists for \<^verbatim>\<open>addMembers\<close>: one names a new player, the other only members of group 1.\<close>

definition ex_newcomers :: "member_input list" where
  "ex_newcomers =
     [\<lparr>mi_username = ''Carl'', mi_role = Some ''leader''\<rparr>,
      \<lparr>mi_username = ''Alice'', mi_role = Some ''leader''\<rparr>]"

definition ex_insiders :: "member_input list" where
  "ex_insiders =
     [\<lparr>mi_username = ''Alice'', mi_role = None\<rparr>, \<lparr>mi_username = ''BOB'', mi_role = None\<rparr>]"

text \<open>
  A group with two members whose roles are "Zeta" and "alpha", the first with one
  snapshot and the second with none; and the member list the module returns for it.
\<close>

definition ex_roles_db :: db where
  "ex_roles_db =
     \<lparr>groups = [ex_group 1 ''Alpha'' None 0],
      memberships =
        [\<lparr>m_playerId = 1, m_groupId = 1, m_role = ''Zeta''\<rparr>,
         \<lparr>m_playerId = 2, m_groupId = 1, m_role = ''alpha''\<rparr>],
      players = [ex_player 1 ''alice'', ex_player 2 ''bob''],
      snapshots = [\<lparr>s_playerId = 1, s_createdAt = 5, s_overallExperience = 100\<rparr>]\<rparr>"

definition ex_role_members :: "obj list" where
  "ex_role_members =
     [[(''id'', JNum 2), (''username'', JStr ''bob''), (''displayName'', JStr ''bob''),
       (''type'', JStr ''regular''), (''updatedAt'', JNum 1), (''role'', JStr ''alpha''),
       (''overallExperience'', JNum 0)],
      [(''id'', JNum 1), (''username'', JStr ''alice''), (''displayName'', JStr ''alice''),
       (''type'', JStr ''regular''), (''updatedAt'', JNum 1), (''role'', JStr ''Zeta''),
       (''overallExperience'', JNum 100)]]"

section \<open>Properties\<close>

subsection \<open>Name sanitization\<close>

lemma replaceAll_absent: "a \<notin> set s \<Longrightarrow> replaceAll a b s = s"
  by (induction s) (auto simp: replaceAll_def)

lemma set_collapseSpaces: "set (collapseSpaces s) \<subseteq> set s"
  by (induction s rule: collapseSpaces.induct) auto

lemma set_trim: "set (trim s) \<subseteq> set s"
proof -
  have "set (dropWhile isWhiteSpace (rev (dropWhile isWhiteSpace s)))
          \<subseteq> set (rev (dropWhile isWhiteSpace s))"
    by (meson set_dropWhileD subsetI)
  also have "\<dots> \<subseteq> set s"
    using set_dropWhileD by fastforce
  finally show ?thesis by (simp add: trim_def)
qed

lemma hd_collapseSpaces: "s \<noteq> [] \<Longrightarrow> collapseSpaces s \<noteq> [] \<and> hd (collapseSpaces s) = hd s"
  by (induction s rule: collapseSpaces.induct) auto

lemma singleSpaced_collapseSpaces: "singleSpaced (collapseSpaces s)"
  unfolding singleSpaced_def
proof (induction s rule: collapseSpaces.induct)
  case (1 a b cs)
  have "collapseSpaces (b # cs) \<noteq> [] \<and> hd (collapseSpaces (b # cs)) = b"
    using hd_collapseSpaces [of "b # cs"] by simp
  with 1 show ?case
    by (auto simp: successively_Cons)
qed simp_all

lemma collapseSpaces_singleSpaced: "singleSpaced s \<Longrightarrow> collapseSpaces s = s"
  unfolding singleSpaced_def
  by (induction s rule: collapseSpaces.induct) auto

lemma singleSpaced_dropWhile: "singleSpaced s \<Longrightarrow> singleSpaced (dropWhile P s)"
proof -
  assume a: "singleSpaced s"
  have "s = takeWhile P s @ dropWhile P s" by simp
  with a show ?thesis
    unfolding singleSpaced_def by (metis successively_append_iff)
qed

lemma singleSpaced_rev: "singleSpaced (rev s) = singleSpaced s"
  unfolding singleSpaced_def by (auto elim: successively_mono)

lemma singleSpaced_trim: "singleSpaced s \<Longrightarrow> singleSpaced (trim s)"
  by (simp add: trim_def singleSpaced_rev singleSpaced_dropWhile)

lemma dropWhile_fixed: "s = [] \<or> \<not> P (hd s) \<Longrightarrow> dropWhile P s = s"
  by (cases s) auto

lemma trim_trim: "trim (trim s) = trim s"
proof -
  define t where "t = dropWhile isWhiteSpace s"
  define u where "u = dropWhile isWhiteSpace (rev t)"
  have t_hd: "t = [] \<or> \<not> isWhiteSpace (hd t)"
    unfolding t_def by (metis hd_dropWhile)
  have u_hd: "u = [] \<or> \<not> isWhiteSpace (hd u)"
    unfolding u_def by (metis hd_dropWhile)
  have "rev t = takeWhile isWhiteSpace (rev t) @ u"
    by (simp add: u_def)
  then have t_split: "t = rev u @ rev (takeWhile isWhiteSpace (rev t))"
    by (metis rev_append rev_rev_ident)
  have "rev u = [] \<or> \<not> isWhiteSpace (hd (rev u))"
  proof (cases "rev u = []")
    case False
    then have "hd t = hd (rev u)" using t_split by (metis hd_append2)
    moreover have "t \<noteq> []" using False t_split by auto
    ultimately show ?thesis using t_hd by auto
  qed simp
  then have "dropWhile isWhiteSpace (rev u) = rev u"
    by (rule dropWhile_fixed)
  moreover have "dropWhile isWhiteSpace u = u"
    using u_hd by (rule dropWhile_fixed)
  ultimately have "trim (rev u) = rev u"
    by (simp add: trim_def)
  moreover have "trim s = rev u"
    by (simp add: trim_def t_def u_def)
  ultimately show ?thesis by simp
qed

lemma sanitizeName_chars:
  "CHR ''_'' \<notin> set (sanitizeName s)" "CHR ''-'' \<notin> set (sanitizeName s)"
proof -
  let ?r = "replaceAll CHR ''-'' CHR '' '' (replaceAll CHR ''_'' CHR '' '' s)"
  have "CHR ''_'' \<notin> set ?r" "CHR ''-'' \<notin> set ?r"
    by (auto simp: replaceAll_def)
  moreover have "set (sanitizeName s) \<subseteq> set ?r"
    unfolding sanitizeName_def using set_trim set_collapseSpaces by blast
  ultimately show "CHR ''_'' \<notin> set (sanitizeName s)" "CHR ''-'' \<notin> set (sanitizeName s)"
    by blast+
qed

text \<open>
  Claim C9. Sanitizing a name is idempotent: a name that has been sanitized once is left
  as it is by a second sanitization.
\<close>

theorem sanitizeName_idempotent: "sanitizeName (sanitizeName s) = sanitizeName s"
proof -
  let ?r = "sanitizeName s"
  have r_def: "?r = trim (collapseSpaces
      (replaceAll CHR ''-'' CHR '' '' (replaceAll CHR ''_'' CHR '' '' s)))"
    by (simp add: sanitizeName_def)
  have "replaceAll CHR ''_'' CHR '' '' ?r = ?r"
    by (rule replaceAll_absent) (rule sanitizeName_chars)
  moreover have "replaceAll CHR ''-'' CHR '' '' ?r = ?r"
    by (rule replaceAll_absent) (rule sanitizeName_chars)
  moreover have "singleSpaced ?r"
    unfolding r_def by (rule singleSpaced_trim) (rule singleSpaced_collapseSpaces)
  then have "collapseSpaces ?r = ?r"
    by (rule collapseSpaces_singleSpaced)
  moreover have "trim ?r = ?r"
    unfolding r_def by (rule trim_trim)
  ultimately show ?thesis
    by (simp add: sanitizeName_def)
qed

subsection \<open>Objects and sorting\<close>

lemma map_of_replace:
  "map_of (map (\<lambda>kv. if fst kv = k then (k, v) else kv) ob) k' =
     (if k' = k \<and> k \<in> fst ` set ob then Some v else map_of ob k')"
  by (induction ob) (fastforce simp: image_iff)+

lemma map_of_assign: "map_of (assign ob k v) = (map_of ob)(k \<mapsto> v)"
proof
  fix k'
  show "map_of (assign ob k v) k' = ((map_of ob)(k \<mapsto> v)) k'"
  proof (cases "k \<in> fst ` set ob")
    case True
    then show ?thesis by (simp add: assign_def map_of_replace)
  next
    case False
    then have "map_of ob k = None" by (simp add: map_of_eq_None_iff)
    with False show ?thesis
      by (auto simp: assign_def map_add_def split: option.splits)
  qed
qed

lemma field_assign: "field (assign ob k v) k' = (if k' = k then v else field ob k')"
  by (simp add: field_def map_of_assign)

lemma set_insort_cmp: "set (insort_cmp c x xs) = insert x (set xs)"
  by (induction xs) auto

lemma set_sort_cmp: "set (sort_cmp c xs) = set xs"
  by (induction xs) (auto simp: sort_cmp_def set_insort_cmp)

lemma length_insort_cmp: "length (insort_cmp c x xs) = Suc (length xs)"
  by (induction xs) auto

lemma length_sort_cmp: "length (sort_cmp c xs) = length xs"
  by (induction xs) (auto simp: sort_cmp_def length_insort_cmp)

lemma sorted_insort_cmp:
  assumes trans: "\<And>a b c'. c a b \<le> 0 \<Longrightarrow> c b c' \<le> 0 \<Longrightarrow> c a c' \<le> 0"
    and total: "\<And>a b. c a b \<le> 0 \<or> c b a \<le> 0"
  shows "sorted_wrt (\<lambda>a b. c a b \<le> 0) xs \<Longrightarrow> sorted_wrt (\<lambda>a b. c a b \<le> 0) (insort_cmp c x xs)"
proof (induction xs)
  case Nil
  then show ?case by simp
next
  case (Cons y ys)
  show ?case
  proof (cases "c x y \<le> 0")
    case True
    with Cons.prems trans show ?thesis by auto
  next
    case False
    then have "c y x \<le> 0" using total by blast
    with False Cons show ?thesis by (auto simp: set_insort_cmp)
  qed
qed

lemma sorted_sort_cmp:
  assumes trans: "\<And>a b c'. c a b \<le> 0 \<Longrightarrow> c b c' \<le> 0 \<Longrightarrow> c a c' \<le> 0"
    and total: "\<And>a b. c a b \<le> 0 \<or> c b a \<le> 0"
  shows "sorted_wrt (\<lambda>a b. c a b \<le> 0) (sort_cmp c xs)"
proof (induction xs)
  case Nil
  then show ?case by (simp add: sort_cmp_def)
next
  case (Cons x xs)
  have "sort_cmp c (x # xs) = insort_cmp c x (sort_cmp c xs)"
    by (simp add: sort_cmp_def)
  with Cons sorted_insort_cmp [of c, OF trans total] show ?case by simp
qed

subsection \<open>The verification hash stays inside\<close>

lemma omitsHash_omit: "omitsHash (omit ob [''verificationHash''])"
  by (auto simp: omitsHash_def omit_def)

lemma omitsHash_format: "omitsHash (format g)"
  by (simp add: format_def omitsHash_omit)

lemma omitsHash_assign: "omitsHash ob \<Longrightarrow> k \<noteq> ''verificationHash'' \<Longrightarrow> omitsHash (assign ob k v)"
  by (auto simp: omitsHash_def assign_def image_iff split: if_splits)

lemma omitsHash_attachMembersCount:
  "list_all omitsHash gs \<Longrightarrow> list_all omitsHash (attachMembersCount d gs)"
  by (simp add: attachMembersCount_def Let_def list_all_iff omitsHash_assign)

lemma omitsHash_list: "list_all omitsHash (list_groups iLike d name pg)"
  unfolding list_groups_def Let_def
  by (rule omitsHash_attachMembersCount) (simp add: list_all_iff omitsHash_format)

lemma omitsHash_findForPlayer:
  assumes "findForPlayer d playerId pg = Inr gs"
  shows "list_all omitsHash gs"
proof -
  from assms obtain xs where "gs = attachMembersCount d (map format xs)"
    by (auto simp: findForPlayer_def Let_def split: if_splits)
  moreover have "list_all omitsHash (map format xs)"
    by (simp add: list_all_iff omitsHash_format)
  ultimately show ?thesis
    by (simp add: omitsHash_attachMembersCount)
qed

lemma omitsHash_view: "view d i = Inr ob \<Longrightarrow> omitsHash ob"
  by (auto simp: view_def omitsHash_format split: if_splits option.splits)

lemma omitsHash_create: "fst (create sv name clanChat members d) = Inr ob \<Longrightarrow> omitsHash ob"
  unfolding create_def Let_def
  by (auto split: if_splits option.splits prod.splits sum.splits
      intro!: omitsHash_assign omitsHash_omit)

lemma omitsHash_edit: "fst (edit sv i name clanChat code members d) = Inr ob \<Longrightarrow> omitsHash ob"
  unfolding edit_def Let_def
  by (auto split: if_splits option.splits prod.splits sum.splits
      intro!: omitsHash_assign omitsHash_format)

text \<open>
  Claim C3, as the code has it. Every group record that \<^verbatim>\<open>list\<close>, \<^verbatim>\<open>findForPlayer\<close>,
  \<^verbatim>\<open>view\<close>, \<^verbatim>\<open>create\<close> or \<^verbatim>\<open>edit\<close> returns omits the field \<^verbatim>\<open>verificationHash\<close>.
  (\<^verbatim>\<open>findOne\<close> hands out the stored row as it is.)
\<close>

theorem formatted_groups_omit_verificationHash:
  "list_all omitsHash (list_groups iLike d pattern pg)
   \<and> (findForPlayer d playerId pg = Inr gs \<longrightarrow> list_all omitsHash gs)
   \<and> (view d i = Inr viewed \<longrightarrow> omitsHash viewed)
   \<and> (fst (create sv newName newClanChat newMembers d) = Inr created \<longrightarrow> omitsHash created)
   \<and> (fst (edit sv i name clanChat code members d) = Inr edited \<longrightarrow> omitsHash edited)"
proof (intro conjI impI)
  show "list_all omitsHash (list_groups iLike d pattern pg)"
    by (rule omitsHash_list)
  show "list_all omitsHash gs" if "findForPlayer d playerId pg = Inr gs"
    using that by (rule omitsHash_findForPlayer)
  show "omitsHash viewed" if "view d i = Inr viewed"
    using that by (rule omitsHash_view)
  show "omitsHash created" if "fst (create sv newName newClanChat newMembers d) = Inr created"
    using that by (rule omitsHash_create)
  show "omitsHash edited" if "fst (edit sv i name clanChat code members d) = Inr edited"
    using that by (rule omitsHash_edit)
qed

theorem formatted_groups_omit_verificationHash_witness:
  "list_groups (\<lambda>_ _. True) ex_db [] \<lparr>limit = 20, offset = 0\<rparr> \<noteq> []
   \<and> list_all omitsHash (list_groups (\<lambda>_ _. True) ex_db [] \<lparr>limit = 20, offset = 0\<rparr>)
   \<and> (\<exists>gs. findForPlayer ex_db 1 \<lparr>limit = 20, offset = 0\<rparr> = Inr gs \<and> gs \<noteq> []
          \<and> list_all omitsHash gs)
   \<and> (\<exists>viewed. view ex_db 1 = Inr viewed \<and> omitsHash viewed)
   \<and> (\<exists>created. fst (create ex_services ''Delta'' None None ex_db) = Inr created
          \<and> omitsHash created)
   \<and> (\<exists>edited. fst (edit ex_services 1 (Some ''Alpha Two'') None ''secret'' None ex_db) = Inr edited
          \<and> omitsHash edited)"
proof -
  have "list_groups (\<lambda>_ _. True) ex_db [] \<lparr>limit = 20, offset = 0\<rparr> \<noteq> []"
    by code_simp
  moreover have "\<not> isl (findForPlayer ex_db 1 \<lparr>limit = 20, offset = 0\<rparr>)
      \<and> projr (findForPlayer ex_db 1 \<lparr>limit = 20, offset = 0\<rparr>) \<noteq> []"
    by code_simp
  then have "\<exists>gs. findForPlayer ex_db 1 \<lparr>limit = 20, offset = 0\<rparr> = Inr gs \<and> gs \<noteq> []"
    by (cases "findForPlayer ex_db 1 \<lparr>limit = 20, offset = 0\<rparr>") auto
  moreover have "\<not> isl (view ex_db 1)"
    by code_simp
  then have "\<exists>viewed. view ex_db 1 = Inr viewed"
    by (cases "view ex_db 1") auto
  moreover have "\<not> isl (fst (create ex_services ''Delta'' None None ex_db))"
    by code_simp
  then have "\<exists>created. fst (create ex_services ''Delta'' None None ex_db) = Inr created"
    by (cases "fst (create ex_services ''Delta'' None None ex_db)") auto
  moreover have "\<not> isl (fst (edit ex_services 1 (Some ''Alpha Two'') None ''secret'' None ex_db))"
    by code_simp
  then have "\<exists>edited. fst (edit ex_services 1 (Some ''Alpha Two'') None ''secret'' None ex_db) = Inr edited"
    by (cases "fst (edit ex_services 1 (Some ''Alpha Two'') None ''secret'' None ex_db)") auto
  ultimately show ?thesis
    using formatted_groups_omit_verificationHash
      [of "\<lambda>_ _. True" ex_db "[]" "\<lparr>limit = 20, offset = 0\<rparr>" 1 _ 1 _ ex_services "''Delta''" None None _
          "Some ''Alpha Two''" None "''secret''" None _]
    by blast
qed

text \<open>
  The stored row that \<^verbatim>\<open>findOne\<close> returns for group 1 of the example store carries the
  hash, and so does its serialization.
\<close>

theorem findOne_exposes_verificationHash:
  "findOne ex_db 1 = Some (ex_group 1 ''Alpha'' (Some ''alpha cc'') 10)
   \<and> g_verificationHash (ex_group 1 ''Alpha'' (Some ''alpha cc'') 10) = ''hash of secret''
   \<and> field (group_toJSON (ex_group 1 ''Alpha'' (Some ''alpha cc'') 10)) ''verificationHash''
       = JStr ''hash of secret''
   \<and> \<not> omitsHash (group_toJSON (ex_group 1 ''Alpha'' (Some ''alpha cc'') 10))"
  by code_simp

subsection \<open>The member list\<close>

lemma obj_id_memberObject: "obj_id (memberObject em pm) = p_id (fst pm)"
  by (simp add: obj_id_def memberObject_def field_assign) (simp add: field_def player_toJSON_def)

lemma obj_role_memberObject: "obj_role (memberObject em pm) = m_role (snd pm)"
  by (simp add: obj_role_def memberObject_def field_assign)

lemma experience_memberObject:
  "field (memberObject em pm) ''overallExperience'' = JNum (orZero (em (p_id (fst pm))))"
  by (simp add: memberObject_def field_assign)

lemma set_latestSnapshots: "set (latestSnapshots d ids) \<subseteq> set (snapshots d)"
  by (auto simp: latestSnapshots_def)

lemma experienceMap_None:
  "pid \<notin> s_playerId ` set rows \<Longrightarrow> experienceMap rows pid = None"
  by (force simp: experienceMap_def map_of_eq_None_iff)

lemma getMembersList_Inr:
  assumes "getMembersList localeCompare d i = Inr members"
  shows "members =
     sort_cmp (\<lambda>a b. localeCompare (obj_role a) (obj_role b))
       (map (memberObject
              (experienceMap (latestSnapshots d (map (\<lambda>pm. p_id (fst pm)) (groupMemberships d i)))))
          (groupMemberships d i))"
proof (cases "groupMemberships d i = []")
  case True
  with assms show ?thesis
    by (auto simp: getMembersList_def sort_cmp_def split: if_splits option.splits)
next
  case False
  with assms show ?thesis
    by (auto simp: getMembersList_def Let_def split: if_splits option.splits)
qed

lemma collate_le:
  "(collate a b \<le> 0) =
     (toLowerCase a < toLowerCase b \<or> (toLowerCase a = toLowerCase b \<and> caseMarks a \<le> caseMarks b))"
  by (auto simp: collate_def)

lemma collate_trans: "collate a b \<le> 0 \<Longrightarrow> collate b c \<le> 0 \<Longrightarrow> collate a c \<le> 0"
  unfolding collate_le by (auto intro: less_trans order_trans)

lemma collate_total: "collate a b \<le> 0 \<or> collate b a \<le> 0"
  unfolding collate_le by (metis linorder_less_linear linear)

text \<open>
  Claim C10, as the code has it. In the list that \<^verbatim>\<open>getMembersList\<close> returns, with one
  entry per membership row of the group, every member whose player has no snapshot row
  has \<^verbatim>\<open>overallExperience = 0\<close>, and the list is in ascending order of the role strings
  in the order \<open>le\<close> that the comparison \<^verbatim>\<open>localeCompare\<close> realises: the collation of the
  runtime, which is not the lexicographic order of the character codes.
\<close>

theorem getMembersList_sorted_by_role:
  assumes cmp: "\<And>a b. (localeCompare a b \<le> 0) = le a b"
    and trans: "\<And>a b c. le a b \<Longrightarrow> le b c \<Longrightarrow> le a c"
    and total: "\<And>a b. le a b \<or> le b a"
    and res: "getMembersList localeCompare d i = Inr members"
  shows "sorted_wrt (\<lambda>a b. le (obj_role a) (obj_role b)) members
       \<and> (\<forall>ob \<in> set members.
            (\<forall>s \<in> set (snapshots d). s_playerId s \<noteq> obj_id ob)
              \<longrightarrow> field ob ''overallExperience'' = JNum 0)
       \<and> length members = length (groupMemberships d i)"
proof -
  let ?c = "\<lambda>a b. localeCompare (obj_role a) (obj_role b)"
  let ?ms = "groupMemberships d i"
  let ?em = "experienceMap (latestSnapshots d (map (\<lambda>pm. p_id (fst pm)) ?ms))"
  have members: "members = sort_cmp ?c (map (memberObject ?em) ?ms)"
    using res by (rule getMembersList_Inr)
  have "sorted_wrt (\<lambda>a b. ?c a b \<le> 0) (sort_cmp ?c (map (memberObject ?em) ?ms))"
  proof (rule sorted_sort_cmp)
    fix a b c' :: obj
    assume "?c a b \<le> 0" "?c b c' \<le> 0"
    then show "?c a c' \<le> 0" using cmp trans by blast
  next
    fix a b :: obj
    show "?c a b \<le> 0 \<or> ?c b a \<le> 0" using cmp total by simp
  qed
  then have sorted: "sorted_wrt (\<lambda>a b. le (obj_role a) (obj_role b)) members"
    by (simp add: members cmp)
  have zero: "field ob ''overallExperience'' = JNum 0"
    if ob: "ob \<in> set members" and none: "\<forall>s \<in> set (snapshots d). s_playerId s \<noteq> obj_id ob" for ob
  proof -
    from ob obtain pm where pm: "pm \<in> set ?ms" "ob = memberObject ?em pm"
      by (auto simp: members set_sort_cmp)
    have "p_id (fst pm) \<notin> s_playerId ` set (latestSnapshots d (map (\<lambda>pm. p_id (fst pm)) ?ms))"
      using none set_latestSnapshots [of d "map (\<lambda>pm. p_id (fst pm)) ?ms"]
      by (auto simp: pm obj_id_memberObject dest: subsetD)
    then have "?em (p_id (fst pm)) = None"
      by (rule experienceMap_None)
    then show ?thesis
      by (simp add: pm experience_memberObject orZero_def)
  qed
  have "length members = length ?ms"
    by (simp add: members length_sort_cmp)
  with sorted zero show ?thesis by blast
qed

theorem getMembersList_sorted_by_role_witness:
  "getMembersList collate ex_roles_db 1 = Inr ex_role_members
   \<and> map obj_role ex_role_members = [''alpha'', ''Zeta'']
   \<and> sorted_wrt (\<lambda>a b. collate (obj_role a) (obj_role b) \<le> 0) ex_role_members
   \<and> (\<exists>ob \<in> set ex_role_members.
         (\<forall>s \<in> set (snapshots ex_roles_db). s_playerId s \<noteq> obj_id ob)
         \<and> field ob ''overallExperience'' = JNum 0)
   \<and> length ex_role_members = length (groupMemberships ex_roles_db 1)"
proof -
  have res: "getMembersList collate ex_roles_db 1 = Inr ex_role_members"
    by code_simp
  have roles: "map obj_role ex_role_members = [''alpha'', ''Zeta'']"
    by code_simp
  have cmp: "\<And>a b. (collate a b \<le> 0) = (collate a b \<le> 0)"
    by simp
  have bob: "\<exists>ob \<in> set ex_role_members. \<forall>s \<in> set (snapshots ex_roles_db). s_playerId s \<noteq> obj_id ob"
    by code_simp
  have inst: "sorted_wrt (\<lambda>a b. collate (obj_role a) (obj_role b) \<le> 0) ex_role_members
       \<and> (\<forall>ob \<in> set ex_role_members.
            (\<forall>s \<in> set (snapshots ex_roles_db). s_playerId s \<noteq> obj_id ob)
              \<longrightarrow> field ob ''overallExperience'' = JNum 0)
       \<and> length ex_role_members = length (groupMemberships ex_roles_db 1)"
    using cmp collate_trans collate_total res
    by (rule getMembersList_sorted_by_role [where le = "\<lambda>a b. collate a b \<le> 0"])
  from bob obtain ob where ob: "ob \<in> set ex_role_members"
      "\<forall>s \<in> set (snapshots ex_roles_db). s_playerId s \<noteq> obj_id ob"
    by blast
  with inst have "field ob ''overallExperience'' = JNum 0"
    by blast
  with ob have "\<exists>ob \<in> set ex_role_members.
      (\<forall>s \<in> set (snapshots ex_roles_db). s_playerId s \<noteq> obj_id ob)
      \<and> field ob ''overallExperience'' = JNum 0"
    by blast
  with inst res roles show ?thesis
    by simp
qed

text \<open>
  For the group with the roles "Zeta" and "alpha" the list has "alpha" first, while in
  the lexicographic order of the character codes "Zeta" is the smaller string: the list
  is not in ascending lexicographic order of the roles.
\<close>

theorem getMembersList_not_lexicographic:
  "getMembersList collate ex_roles_db 1 = Inr ex_role_members
   \<and> map obj_role ex_role_members = [''alpha'', ''Zeta'']
   \<and> ''Zeta'' < ''alpha''
   \<and> \<not> sorted_wrt (\<lambda>a b. obj_role a \<le> obj_role b) ex_role_members"
  by code_simp

subsection \<open>The score\<close>

lemma js_toString_plus_object:
  "js_toString (js_plus_object acc m) = js_toString acc @ ''[object Object]''"
  by (simp add: js_plus_object_def js_toString_def)

lemma foldl_js_plus_object:
  "foldl js_plus_object acc ms =
     (if ms = [] then acc
      else JsString (js_toString acc @ concat (map (\<lambda>_. ''[object Object]'') ms)))"
proof (induction ms arbitrary: acc)
  case Nil
  then show ?case by simp
next
  case (Cons m ms)
  show ?case
  proof (cases "ms = []")
    case True
    then show ?thesis by (simp add: js_plus_object_def)
  next
    case False
    then show ?thesis
      using Cons.IH [of "js_plus_object acc m"]
      by (simp add: js_toString_plus_object del: append_assoc)
  qed
qed

lemma js_toNumber_object_string:
  "ms \<noteq> [] \<Longrightarrow> js_toNumber (JsString (s @ concat (map (\<lambda>_. ''[object Object]'') ms))) = None"
  by (cases ms) (auto simp: js_toNumber_def isDigit_def)

lemma averageOverallExp_NaN:
  "ms \<noteq> [] \<Longrightarrow> js_divide (foldl js_plus_object (JsNumber 0) ms) n = NaN"
  by (simp add: foldl_js_plus_object js_divide_def js_toNumber_object_string)

lemma field_role_memberObject: "field (memberObject em pm) ''role'' = JStr (m_role (snd pm))"
  by (simp add: memberObject_def field_assign)

lemma getMembersList_exists:
  assumes "i \<noteq> 0" "Group_findOne d i \<noteq> None"
  shows "getMembersList localeCompare d i =
     Inr (sort_cmp (\<lambda>a b. localeCompare (obj_role a) (obj_role b))
       (map (memberObject
              (experienceMap (latestSnapshots d (map (\<lambda>pm. p_id (fst pm)) (groupMemberships d i)))))
          (groupMemberships d i)))"
  using assms by (auto simp: getMembersList_def Let_def sort_cmp_def)

lemma leader_filter:
  assumes "list_ex (\<lambda>pm. m_role (snd pm) = ''leader'') ms"
  shows "1 \<le> length (filter (\<lambda>m. field m ''role'' = JStr ''leader'')
                      (sort_cmp c (map (memberObject em) ms)))"
proof -
  from assms obtain pm where pm: "pm \<in> set ms" "m_role (snd pm) = ''leader''"
    by (auto simp: list_ex_iff)
  then have "memberObject em pm \<in> set (filter (\<lambda>m. field m ''role'' = JStr ''leader'')
      (sort_cmp c (map (memberObject em) ms)))"
    by (simp add: set_sort_cmp field_role_memberObject)
  then have "filter (\<lambda>m. field m ''role'' = JStr ''leader'') (sort_cmp c (map (memberObject em) ms)) \<noteq> []"
    by (metis empty_iff empty_set)
  then show ?thesis
    by (simp add: Suc_le_eq)
qed

lemma list_ex_filter_length: "list_ex P xs \<Longrightarrow> 1 \<le> length (filter P xs)"
  by (induction xs) auto

text \<open>
  Claim C1, as the code has it. A stored group without members scores 0. A stored group
  with a leader, at least 50 members, a non-empty clan chat, the verified flag, a
  competition that is going on and one that is still to start scores
  30 + 20 + 40 + 50 + 100 + 50 + 30 = 320, the bonus for 10 members included, plus the
  bonus for the average experience (0, 30 or 30 + 60).
\<close>

theorem calculateScore_empty_and_full:
  assumes gid: "g_id g \<noteq> 0" and stored: "Group_findOne d (g_id g) \<noteq> None"
  shows "(groupMemberships d (g_id g) = [] \<longrightarrow> calculateScore localeCompare findForGroup t d g = Inr 0)
       \<and> (list_ex (\<lambda>pm. m_role (snd pm) = ''leader'') (groupMemberships d (g_id g))
          \<and> 50 \<le> length (groupMemberships d (g_id g))
          \<and> truthy (g_clanChat g)
          \<and> g_verified g
          \<and> list_ex (ongoing t) (findForGroup (g_id g) \<lparr>limit = 10000, offset = 0\<rparr>)
          \<and> list_ex (upcoming t) (findForGroup (g_id g) \<lparr>limit = 10000, offset = 0\<rparr>)
          \<longrightarrow> (\<exists>bonus \<in> {0, 30, 90}.
                 calculateScore localeCompare findForGroup t d g = Inr (30 + 20 + 40 + bonus + 50 + 100 + 50 + 30)))"
proof (intro conjI impI)
  note ml = getMembersList_exists [OF gid stored, of localeCompare]
  show "calculateScore localeCompare findForGroup t d g = Inr 0"
    if "groupMemberships d (g_id g) = []"
    using that by (simp add: calculateScore_def ml sort_cmp_def)
  let ?ms = "groupMemberships d (g_id g)"
  let ?members = "sort_cmp (\<lambda>a b. localeCompare (obj_role a) (obj_role b))
       (map (memberObject
              (experienceMap (latestSnapshots d (map (\<lambda>pm. p_id (fst pm)) ?ms)))) ?ms)"
  assume full: "list_ex (\<lambda>pm. m_role (snd pm) = ''leader'') ?ms
          \<and> 50 \<le> length ?ms
          \<and> truthy (g_clanChat g)
          \<and> g_verified g
          \<and> list_ex (ongoing t) (findForGroup (g_id g) \<lparr>limit = 10000, offset = 0\<rparr>)
          \<and> list_ex (upcoming t) (findForGroup (g_id g) \<lparr>limit = 10000, offset = 0\<rparr>)"
  have len: "length ?members = length ?ms"
    by (simp add: length_sort_cmp)
  with full have nonempty: "?members \<noteq> []"
    by auto
  have leader: "1 \<le> length (filter (\<lambda>m. field m ''role'' = JStr ''leader'') ?members)"
    using full by (intro leader_filter) simp
  have chat: "(case g_clanChat g of None \<Rightarrow> False | Some c \<Rightarrow> 0 < length c)"
    using full by (auto simp: truthy_def split: option.splits)
  have on: "1 \<le> length (filter (\<lambda>c. c_startsAt c \<le> t \<and> t \<le> c_endsAt c)
                (findForGroup (g_id g) \<lparr>limit = 10000, offset = 0\<rparr>))"
    using full list_ex_filter_length [of "ongoing t"] by (simp add: ongoing_def [abs_def])
  have up: "1 \<le> length (filter (\<lambda>c. t \<le> c_startsAt c)
                (findForGroup (g_id g) \<lparr>limit = 10000, offset = 0\<rparr>))"
    using full list_ex_filter_length [of "upcoming t"] by (simp add: upcoming_def [abs_def])
  have "calculateScore localeCompare findForGroup t d g = Inr (30 + 20 + 40 + 0 + 50 + 100 + 50 + 30)"
    using full nonempty leader chat on up len
    by (simp add: calculateScore_def ml Let_def averageOverallExp_NaN js_ge_def)
  then show "\<exists>bonus \<in> {0, 30, 90}.
      calculateScore localeCompare findForGroup t d g = Inr (30 + 20 + 40 + bonus + 50 + 100 + 50 + 30)"
    by blast
qed

theorem calculateScore_empty_and_full_witness:
  "groupMemberships ex_db 3 = []
   \<and> calculateScore collate ex_competitions 100 ex_db (ex_group 3 ''Gamma'' None 0) = Inr 0
   \<and> list_ex (\<lambda>pm. m_role (snd pm) = ''leader'') (groupMemberships ex_full_db 1)
   \<and> 50 \<le> length (groupMemberships ex_full_db 1)
   \<and> truthy (g_clanChat ex_full_group)
   \<and> g_verified ex_full_group
   \<and> list_ex (ongoing 100) (ex_competitions 1 \<lparr>limit = 10000, offset = 0\<rparr>)
   \<and> list_ex (upcoming 100) (ex_competitions 1 \<lparr>limit = 10000, offset = 0\<rparr>)
   \<and> (\<exists>bonus \<in> {0, 30, 90}.
         calculateScore collate ex_competitions 100 ex_full_db ex_full_group
           = Inr (30 + 20 + 40 + bonus + 50 + 100 + 50 + 30))"
proof -
  have empty: "g_id (ex_group 3 ''Gamma'' None 0) \<noteq> 0"
      "Group_findOne ex_db (g_id (ex_group 3 ''Gamma'' None 0)) \<noteq> None"
      "groupMemberships ex_db (g_id (ex_group 3 ''Gamma'' None 0)) = []"
    by code_simp+
  have full: "g_id ex_full_group \<noteq> 0" "Group_findOne ex_full_db (g_id ex_full_group) \<noteq> None"
    by code_simp+
  have id: "g_id ex_full_group = 1" "g_id (ex_group 3 ''Gamma'' None 0) = 3"
    by code_simp+
  have members: "list_ex (\<lambda>pm. m_role (snd pm) = ''leader'') (groupMemberships ex_full_db 1)
      \<and> 50 \<le> length (groupMemberships ex_full_db 1)"
    by code_simp
  have rest: "truthy (g_clanChat ex_full_group)" "g_verified ex_full_group"
      "list_ex (ongoing 100) (ex_competitions 1 \<lparr>limit = 10000, offset = 0\<rparr>)"
      "list_ex (upcoming 100) (ex_competitions 1 \<lparr>limit = 10000, offset = 0\<rparr>)"
    by code_simp+
  from calculateScore_empty_and_full [OF empty(1,2), of collate ex_competitions 100]
    calculateScore_empty_and_full [OF full, of collate ex_competitions 100]
    empty(3) members rest
  show ?thesis
    by (simp only: id simp_thms)
qed

text \<open>
  The full group of the example: every condition of the claim holds, each member has
  200,000,000 overall experience, and the score is 320, not 390.
\<close>

theorem calculateScore_full_group_scores_320:
  "list_ex (\<lambda>pm. m_role (snd pm) = ''leader'') (groupMemberships ex_full_db 1)
   \<and> length (groupMemberships ex_full_db 1) = 50
   \<and> list_all (\<lambda>ob. field ob ''overallExperience'' = JNum 200000000)
        (projr (getMembersList collate ex_full_db 1))
   \<and> g_clanChat ex_full_group = Some ''full cc''
   \<and> g_verified ex_full_group
   \<and> list_ex (ongoing 100) (ex_competitions 1 \<lparr>limit = 10000, offset = 0\<rparr>)
   \<and> list_ex (upcoming 100) (ex_competitions 1 \<lparr>limit = 10000, offset = 0\<rparr>)
   \<and> calculateScore collate ex_competitions 100 ex_full_db ex_full_group = Inr 320
   \<and> calculateScore collate ex_competitions 100 ex_full_db ex_full_group \<noteq> Inr 390"
proof -
  have "list_ex (\<lambda>pm. m_role (snd pm) = ''leader'') (groupMemberships ex_full_db 1)
      \<and> length (groupMemberships ex_full_db 1) = 50"
    by code_simp
  moreover have "list_all (\<lambda>ob. field ob ''overallExperience'' = JNum 200000000)
        (projr (getMembersList collate ex_full_db 1))"
    by code_simp
  moreover have "g_clanChat ex_full_group = Some ''full cc''" "g_verified ex_full_group"
      "list_ex (ongoing 100) (ex_competitions 1 \<lparr>limit = 10000, offset = 0\<rparr>)"
      "list_ex (upcoming 100) (ex_competitions 1 \<lparr>limit = 10000, offset = 0\<rparr>)"
    by code_simp+
  moreover have "calculateScore collate ex_competitions 100 ex_full_db ex_full_group = Inr 320"
    by code_simp
  ultimately show ?thesis
    by simp
qed

subsection \<open>Leaderboards\<close>

lemma map_filter_empty: "(\<And>x. x \<in> set xs \<Longrightarrow> f x = None) \<Longrightarrow> List.map_filter f xs = []"
  by (induction xs) auto

lemma groupMemberships_empty: "memberIdsOf d gid = [] \<Longrightarrow> groupMemberships d gid = []"
  unfolding groupMemberships_def
  by (rule map_filter_empty) (auto simp: memberIdsOf_def filter_empty_conv)

text \<open>
  Claim C4, as the code has it. On a group without members \<^verbatim>\<open>getDeltas\<close>,
  \<^verbatim>\<open>getAchievements\<close> and \<^verbatim>\<open>getRecords\<close> fail with a validation error, and
  \<^verbatim>\<open>getMonthlyTopPlayer\<close> returns \<^verbatim>\<open>null\<close>; \<^verbatim>\<open>getDeltas\<close> and \<^verbatim>\<open>getRecords\<close> fail with a
  validation error whenever the period is outside \<^verbatim>\<open>PERIODS\<close> or the metric is outside
  \<^verbatim>\<open>ALL_METRICS\<close>.
\<close>

theorem leaderboards_reject_empty_groups_and_bad_arguments:
  "(memberIdsOf d groupId = [] \<longrightarrow>
       isBadRequest (getDeltas PERIODS ALL_METRICS deltaLeaderboard d groupId period metric pg)
     \<and> isBadRequest (getAchievements findAllForGroup d groupId pg)
     \<and> isBadRequest (getRecords PERIODS ALL_METRICS recordLeaderboard d groupId metric period pg))
   \<and> (period \<notin> set PERIODS \<or> metric \<notin> set ALL_METRICS \<longrightarrow>
       isBadRequest (getDeltas PERIODS ALL_METRICS deltaLeaderboard d groupId period metric pg)
     \<and> isBadRequest (getRecords PERIODS ALL_METRICS recordLeaderboard d groupId metric period pg))
   \<and> (memberIdsOf d groupId = [] \<and> groupId \<noteq> 0 \<longrightarrow>
       getMonthlyTopPlayer deltaLeaderboard d groupId = Inr None)"
proof (intro conjI impI)
  assume empty: "memberIdsOf d groupId = []"
  show "isBadRequest (getDeltas PERIODS ALL_METRICS deltaLeaderboard d groupId period metric pg)"
    using empty by (simp add: getDeltas_def isBadRequest_def)
  show "isBadRequest (getAchievements findAllForGroup d groupId pg)"
    using groupMemberships_empty [OF empty] by (simp add: getAchievements_def isBadRequest_def)
  show "isBadRequest (getRecords PERIODS ALL_METRICS recordLeaderboard d groupId metric period pg)"
    using empty by (simp add: getRecords_def isBadRequest_def)
next
  assume bad: "period \<notin> set PERIODS \<or> metric \<notin> set ALL_METRICS"
  show "isBadRequest (getDeltas PERIODS ALL_METRICS deltaLeaderboard d groupId period metric pg)"
    using bad by (auto simp: getDeltas_def isBadRequest_def Let_def)
  show "isBadRequest (getRecords PERIODS ALL_METRICS recordLeaderboard d groupId metric period pg)"
    using bad by (auto simp: getRecords_def isBadRequest_def Let_def)
next
  assume "memberIdsOf d groupId = [] \<and> groupId \<noteq> 0"
  then show "getMonthlyTopPlayer deltaLeaderboard d groupId = Inr None"
    by (simp add: getMonthlyTopPlayer_def)
qed

theorem leaderboards_reject_empty_groups_and_bad_arguments_witness:
  "memberIdsOf ex_db 3 = [] \<and> ''year'' \<notin> set [''day'', ''week'']
   \<and> isBadRequest (getDeltas [''day'', ''week''] [''overall''] ex_leaderboard ex_db 3 ''year'' ''overall''
        \<lparr>limit = 20, offset = 0\<rparr>)
   \<and> isBadRequest (getAchievements (\<lambda>ids pg. []) ex_db 3 \<lparr>limit = 20, offset = 0\<rparr>)
   \<and> isBadRequest (getRecords [''day'', ''week''] [''overall''] ex_leaderboard ex_db 3 ''overall'' ''year''
        \<lparr>limit = 20, offset = 0\<rparr>)
   \<and> getMonthlyTopPlayer ex_leaderboard ex_db 3 = Inr None"
proof -
  have "memberIdsOf ex_db 3 = []"
    by code_simp
  moreover have "''year'' \<notin> set [''day'', ''week'']"
    by simp
  ultimately show ?thesis
    using leaderboards_reject_empty_groups_and_bad_arguments
      [of ex_db 3 "[''day'', ''week'']" "[''overall'']" ex_leaderboard "''year''" "''overall''"
          "\<lparr>limit = 20, offset = 0\<rparr>" "\<lambda>ids pg. []" ex_leaderboard]
    by simp
qed

text \<open>
  Group 3 of the example store has no members; \<^verbatim>\<open>getMonthlyTopPlayer\<close> returns \<^verbatim>\<open>null\<close>
  for it and does not fail.
\<close>

theorem getMonthlyTopPlayer_returns_null_for_empty_group:
  "memberIdsOf ex_db 3 = []
   \<and> getMonthlyTopPlayer ex_leaderboard ex_db 3 = Inr None
   \<and> \<not> isBadRequest (getMonthlyTopPlayer ex_leaderboard ex_db 3)"
  by code_simp

subsection \<open>Pages of a player's groups\<close>

text \<open>
  Claim C2 on the example store. Player 1 is a member of group 1 (score 10) and of group 2
  (score 50), in this order of the membership rows. With one group per page the first
  page is group 1 and the second is group 2: the slice is taken before the sort, so the
  pages do not enumerate the groups by descending score.
\<close>

theorem findForPlayer_paginates_before_sorting:
  "map (\<lambda>m. (g_id (snd m), g_score (snd m))) (playerMemberships ex_db 1) = [(1, 10), (2, 50)]
   \<and> map_sum id (map (\<lambda>ob. (field ob ''id'', field ob ''score'')))
        (findForPlayer ex_db 1 \<lparr>limit = 1, offset = 0\<rparr>) = Inr [(JNum 1, JNum 10)]
   \<and> map_sum id (map (\<lambda>ob. (field ob ''id'', field ob ''score'')))
        (findForPlayer ex_db 1 \<lparr>limit = 1, offset = 1\<rparr>) = Inr [(JNum 2, JNum 50)]"
  by code_simp

subsection \<open>Setting and editing members\<close>

text \<open>
  Claim C5 on the example store. The members A, a and B are set, B as a leader. The
  names are deduplicated to A and B, and the role of the second player is read from the
  second element of the argument (a, without a role): B ends as a member.
\<close>

theorem setMembers_reads_role_at_deduplicated_index:
  "map (\<lambda>ob. (field ob ''username'', field ob ''role''))
     (getMembers
        (snd (setMembers ex_services (Some (ex_group 1 ''Alpha'' (Some ''alpha cc'') 10))
                [\<lparr>mi_username = ''A'', mi_role = None\<rparr>,
                 \<lparr>mi_username = ''a'', mi_role = None\<rparr>,
                 \<lparr>mi_username = ''B'', mi_role = Some ''leader''\<rparr>]
                ex_db))
        1)
   = [(JStr ''a'', JStr ''member''), (JStr ''b'', JStr ''member'')]"
  by code_simp

text \<open>
  Claim C7 on the example store. Group 1 has the clan chat "alpha cc". An edit that gives
  a new name and neither a clan chat nor members succeeds and leaves the group without a
  clan chat.
\<close>

theorem edit_name_only_clears_clanChat:
  "map_option g_clanChat (Group_findOne ex_db 1) = Some (Some ''alpha cc'')
   \<and> \<not> isl (fst (edit ex_services 1 (Some ''Alpha Two'') None ''secret'' None ex_db))
   \<and> map_option g_clanChat
        (Group_findOne (snd (edit ex_services 1 (Some ''Alpha Two'') None ''secret'' None ex_db)) 1)
       = Some None"
  by code_simp

text \<open>The part of C7 about the members: an edit without a members list keeps every row.\<close>

lemma edit_without_members_keeps_memberships:
  "memberships (snd (edit sv i name clanChat code None d)) = memberships d"
  by (auto simp: edit_def Let_def updateGroup_def split: option.splits)

subsection \<open>Changing a role\<close>

lemma groupMemberships_cong:
  assumes "memberships d' = memberships d" "players d' = players d"
  shows "groupMemberships d' i = groupMemberships d i"
proof -
  have eq: "Player_findByPk d' = Player_findByPk d"
    by (simp add: fun_eq_iff Player_findByPk_def assms)
  show ?thesis
    unfolding groupMemberships_def eq assms(1) by (rule refl)
qed

lemma map_filter_map: "List.map_filter f (map g xs) = List.map_filter (f \<circ> g) xs"
  by (simp add: List.map_filter_def filter_map comp_def)

lemma map_map_filter: "map h (List.map_filter f xs) = List.map_filter (map_option h \<circ> f) xs"
  by (induction xs) (auto split: option.splits)

lemma groupMemberships_map:
  assumes "\<And>r. m_groupId (f r) = m_groupId r" "\<And>r. m_playerId (f r) = m_playerId r"
  shows "groupMemberships (d\<lparr>memberships := map f (memberships d)\<rparr>) i =
         map (\<lambda>pm. (fst pm, f (snd pm))) (groupMemberships d i)"
proof -
  have "(\<lambda>m. if m_groupId m = i
             then map_option (\<lambda>p. (p, m)) (Player_findByPk (d\<lparr>memberships := map f (memberships d)\<rparr>) (m_playerId m))
             else None) \<circ> f
      = map_option (\<lambda>pm. (fst pm, f (snd pm))) \<circ>
        (\<lambda>m. if m_groupId m = i then map_option (\<lambda>p. (p, m)) (Player_findByPk d (m_playerId m)) else None)"
    by (auto simp: fun_eq_iff assms Player_findByPk_def option.map_comp comp_def)
  then show ?thesis
    by (simp add: groupMemberships_def map_filter_map map_map_filter)
qed

lemma find_map_same:
  assumes "\<And>x. P (f x) = P x"
  shows "find P (map f xs) = map_option f (find P xs)"
  using assms by (induction xs) auto

lemma groupMemberships_groupId: "pm \<in> set (groupMemberships d i) \<Longrightarrow> m_groupId (snd pm) = i"
  by (auto simp: groupMemberships_def List.map_filter_def split: if_splits)

lemma findMembership_in: "findMembership d i u = Some pm \<Longrightarrow> pm \<in> set (groupMemberships d i)"
  unfolding findMembership_def by (auto simp: find_Some_iff)

lemma touch_fields [simp]:
  "memberships (touch sv i d) = memberships d" "players (touch sv i d) = players d"
  by (simp_all add: touch_def updateGroup_def)

text \<open>
  Claim C8, as the code has it. The call names a group that exists (by a non-zero id), a
  non-empty username, role and verification code, the code verifies against the group's
  hash, and the named player is a member. If the member holds the role already, the call
  fails with a validation error and the store is unchanged. Otherwise it succeeds,
  returns the old and the new role, and writes the new role to the member's row and to no
  other.
\<close>

theorem changeRole_same_and_different_role:
  assumes call: "i \<noteq> 0" "username \<noteq> []" "role \<noteq> []" "verificationCode \<noteq> []"
    and stored: "Group_findOne d i = Some g"
    and verified: "verifyCode sv (g_verificationHash g) verificationCode"
    and member: "findMembership d i (standardize sv username) = Some (p, m)"
  shows "(m_role m = role \<longrightarrow>
            changeRole sv i username role verificationCode d
              = (Inl (BadRequestError (AlreadyHasRole username role)), d))
       \<and> (m_role m \<noteq> role \<longrightarrow>
            (\<exists>res. fst (changeRole sv i username role verificationCode d) = Inr res
                  \<and> field res ''oldRole'' = JStr (m_role m)
                  \<and> field res ''newRole'' = JStr role)
          \<and> memberships (snd (changeRole sv i username role verificationCode d))
              = map (setRole m role) (memberships d)
          \<and> findMembership (snd (changeRole sv i username role verificationCode d)) i
                (standardize sv username) = Some (p, m\<lparr>m_role := role\<rparr>))"
proof (intro conjI impI)
  assume "m_role m = role"
  with call stored verified member
  show "changeRole sv i username role verificationCode d
          = (Inl (BadRequestError (AlreadyHasRole username role)), d)"
    by (simp add: changeRole_def)
next
  assume diff: "m_role m \<noteq> role"
  let ?d1 = "d\<lparr>memberships := map (setRole m role) (memberships d)\<rparr>"
  let ?res = "[(''player'', JObj (assign (player_toJSON p) ''role'' (JStr role))),
               (''newRole'', JStr role), (''oldRole'', JStr (m_role m))]"
  have run: "changeRole sv i username role verificationCode d = (Inr ?res, touch sv i ?d1)"
    using call stored verified member diff
    by (simp add: changeRole_def Let_def)
  show "\<exists>res. fst (changeRole sv i username role verificationCode d) = Inr res
                  \<and> field res ''oldRole'' = JStr (m_role m)
                  \<and> field res ''newRole'' = JStr role"
    by (simp add: run field_def)
  show "memberships (snd (changeRole sv i username role verificationCode d))
              = map (setRole m role) (memberships d)"
    by (simp add: run)
  have gm: "groupMemberships (touch sv i ?d1) i
      = map (\<lambda>pm. (fst pm, setRole m role (snd pm))) (groupMemberships d i)"
  proof -
    have "groupMemberships (touch sv i ?d1) i = groupMemberships ?d1 i"
      by (rule groupMemberships_cong) simp_all
    also have "\<dots> = map (\<lambda>pm. (fst pm, setRole m role (snd pm))) (groupMemberships d i)"
      by (rule groupMemberships_map) (simp_all add: setRole_def)
    finally show ?thesis .
  qed
  have "findMembership (touch sv i ?d1) i (standardize sv username)
      = map_option (\<lambda>pm. (fst pm, setRole m role (snd pm)))
          (findMembership d i (standardize sv username))"
    unfolding findMembership_def gm by (rule find_map_same) simp
  then show "findMembership (snd (changeRole sv i username role verificationCode d)) i
                (standardize sv username) = Some (p, m\<lparr>m_role := role\<rparr>)"
    by (simp add: run member setRole_def)
qed

theorem changeRole_same_and_different_role_witness:
  "findMembership ex_db 1 (standardize ex_services ''Alice'')
     = Some (ex_player 1 ''alice'', \<lparr>m_playerId = 1, m_groupId = 1, m_role = ''member''\<rparr>)
   \<and> changeRole ex_services 1 ''Alice'' ''member'' ''secret'' ex_db
       = (Inl (BadRequestError (AlreadyHasRole ''Alice'' ''member'')), ex_db)
   \<and> (\<exists>res. fst (changeRole ex_services 1 ''Alice'' ''leader'' ''secret'' ex_db) = Inr res
          \<and> field res ''oldRole'' = JStr ''member''
          \<and> field res ''newRole'' = JStr ''leader'')
   \<and> findMembership (snd (changeRole ex_services 1 ''Alice'' ''leader'' ''secret'' ex_db)) 1
        (standardize ex_services ''Alice'')
       = Some (ex_player 1 ''alice'', \<lparr>m_playerId = 1, m_groupId = 1, m_role = ''leader''\<rparr>)"
proof -
  have stored: "Group_findOne ex_db 1 = Some (ex_group 1 ''Alpha'' (Some ''alpha cc'') 10)"
    by code_simp
  have verified: "verifyCode ex_services (g_verificationHash (ex_group 1 ''Alpha'' (Some ''alpha cc'') 10)) ''secret''"
    by code_simp
  have member: "findMembership ex_db 1 (standardize ex_services ''Alice'')
     = Some (ex_player 1 ''alice'', \<lparr>m_playerId = 1, m_groupId = 1, m_role = ''member''\<rparr>)"
    by code_simp
  have call: "(1::nat) \<noteq> 0" "''Alice'' \<noteq> []" "''secret'' \<noteq> []"
    by simp_all
  have "''member'' \<noteq> []" "''leader'' \<noteq> []" "''member'' \<noteq> ''leader''"
    by simp_all
  with call member
    changeRole_same_and_different_role [OF call(1) call(2) _ call(3) stored verified member,
      of "''member''"]
    changeRole_same_and_different_role [OF call(1) call(2) _ call(3) stored verified member,
      of "''leader''"]
  show ?thesis
    by simp
qed

text \<open>
  On the example store alice is a member of group 1 with the role "member". Changing her
  role to the empty string, a different role, fails.
\<close>

theorem changeRole_rejects_empty_role:
  "findMembership ex_db 1 (standardize ex_services ''Alice'')
     = Some (ex_player 1 ''alice'', \<lparr>m_playerId = 1, m_groupId = 1, m_role = ''member''\<rparr>)
   \<and> verifyCode ex_services (g_verificationHash (ex_group 1 ''Alpha'' (Some ''alpha cc'') 10)) ''secret''
   \<and> ''member'' \<noteq> ''''
   \<and> changeRole ex_services 1 ''Alice'' '''' ''secret'' ex_db
       = (Inl (BadRequestError InvalidGroupRole), ex_db)"
  by code_simp

subsection \<open>One row per group and player\<close>

lemma hasRow_iff: "hasRow rows gid pid = ((gid, pid) \<in> membershipKey ` set rows)"
  by (auto simp: hasRow_def list_ex_iff membershipKey_def image_iff)

lemma keys_filter: "distinct (map membershipKey rows) \<Longrightarrow> distinct (map membershipKey (filter P rows))"
  by (rule distinct_map_filter)

lemma keys_map:
  "(\<And>r. membershipKey (f r) = membershipKey r) \<Longrightarrow> map membershipKey (map f rows) = map membershipKey rows"
  by simp

lemma membershipKey_setRole [simp]: "membershipKey (setRole m role r) = membershipKey r"
  by (simp add: setRole_def membershipKey_def)

lemma hasRow_key: "hasRow rows (m_groupId n) (m_playerId n) = (membershipKey n \<in> membershipKey ` set rows)"
  by (simp add: hasRow_iff membershipKey_def)

lemma keys_bulkCreate:
  "distinct (map membershipKey rows) \<Longrightarrow>
   distinct (map membershipKey (bulkCreate_ignoreDuplicates rows ns))"
proof (induction ns arbitrary: rows)
  case Nil
  then show ?case by simp
next
  case (Cons n ns)
  have "distinct (map membershipKey
          (if hasRow rows (m_groupId n) (m_playerId n) then rows else rows @ [n]))"
    using Cons.prems by (simp add: hasRow_key)
  then show ?case
    using Cons.IH by simp
qed

lemma association_add_rows:
  assumes "association_add gid ps through rows = Inr rows'"
  shows "\<exists>f new. rows' = map f rows @ new
      \<and> (\<forall>r. membershipKey (f r) = membershipKey r)
      \<and> distinct (map membershipKey new)
      \<and> membershipKey ` set new \<inter> membershipKey ` set rows = {}"
proof -
  let ?ids = "map p_id ps"
  let ?un = "filter (\<lambda>pid. \<not> hasRow rows gid pid) ?ids"
  let ?f = "(case through of None \<Rightarrow> (\<lambda>r. r)
      | Some role \<Rightarrow> (\<lambda>r. if m_groupId r = gid \<and> m_playerId r \<in> set ?ids then r\<lparr>m_role := role\<rparr> else r))"
  let ?new = "map (\<lambda>pid. \<lparr>m_playerId = pid, m_groupId = gid,
      m_role = (case through of None \<Rightarrow> defaultRole | Some role \<Rightarrow> role)\<rparr>) ?un"
  from assms have d: "distinct ?un" and eq: "rows' = map ?f rows @ ?new"
    by (auto simp: association_add_def Let_def split: if_splits option.splits)
  have "\<forall>r. membershipKey (?f r) = membershipKey r"
    by (auto simp: membershipKey_def split: option.splits)
  moreover have "distinct (map membershipKey ?new)"
    using d by (simp add: distinct_map membershipKey_def comp_def inj_on_def)
  moreover have "membershipKey ` set ?new \<inter> membershipKey ` set rows = {}"
    by (auto simp: hasRow_iff membershipKey_def)
  ultimately show ?thesis using eq by blast
qed

lemma keys_association_add:
  assumes "association_add gid ps through rows = Inr rows'" "distinct (map membershipKey rows)"
  shows "distinct (map membershipKey rows')"
proof -
  from association_add_rows [OF assms(1)] obtain f new where
    r: "rows' = map f rows @ new" "\<forall>r. membershipKey (f r) = membershipKey r"
       "distinct (map membershipKey new)" "membershipKey ` set new \<inter> membershipKey ` set rows = {}"
    by blast
  have "map membershipKey (map f rows) = map membershipKey rows"
    using r(2) by simp
  then have "map membershipKey rows' = map membershipKey rows @ map membershipKey new"
    using r(1) by simp
  moreover have "set (map membershipKey rows) \<inter> set (map membershipKey new) = {}"
    using r(4) by auto
  ultimately show ?thesis
    using assms(2) r(3) by simp
qed

lemma keys_kept_association_add:
  assumes "association_add gid ps through rows = Inr rows'"
  shows "membershipKey ` set rows \<subseteq> membershipKey ` set rows'"
proof -
  from association_add_rows [OF assms] obtain f new where
    r: "rows' = map f rows @ new" "\<forall>r. membershipKey (f r) = membershipKey r"
    by blast
  have "membershipKey ` set (map f rows) = membershipKey ` set rows"
    using r(2) by (auto simp: image_iff)
  then show ?thesis
    using r(1) by auto
qed

lemma findOrCreate_memberships: "memberships (snd (findOrCreate sv u d)) = memberships d"
  by (simp add: findOrCreate_def Let_def split: option.splits)

lemma findAllOrCreate_memberships: "memberships (snd (findAllOrCreate sv us d)) = memberships d"
proof (induction us arbitrary: d)
  case Nil
  then show ?case by simp
next
  case (Cons u us)
  obtain p d1 where f: "findOrCreate sv u d = (p, d1)" by (cases "findOrCreate sv u d")
  obtain ps d2 where g: "findAllOrCreate sv us d1 = (ps, d2)" by (cases "findAllOrCreate sv us d1")
  have "memberships d1 = memberships d"
    using findOrCreate_memberships [of sv u d] f by simp
  moreover have "memberships d2 = memberships d1"
    using Cons.IH [of d1] g by simp
  ultimately show ?case
    by (simp add: f g)
qed

lemma updateGroup_memberships [simp]: "memberships (updateGroup i f d) = memberships d"
  by (simp add: updateGroup_def)

lemma unique_cong: "memberships d' = memberships d \<Longrightarrow> uniqueMemberships d' = uniqueMemberships d"
  by (simp add: uniqueMemberships_def)

lemma setMembers_unique:
  assumes "uniqueMemberships d"
  shows "uniqueMemberships (snd (setMembers sv grp members d))"
proof (cases grp)
  case None
  with assms show ?thesis by (simp add: setMembers_def)
next
  case (Some g)
  obtain ps d1 where f: "findAllOrCreate sv (uniqBy (map mi_username members) toLowerCase) d = (ps, d1)"
    by (cases "findAllOrCreate sv (uniqBy (map mi_username members) toLowerCase) d")
  have m1: "memberships d1 = memberships d"
    using findAllOrCreate_memberships [of sv _ d] f by (metis snd_conv)
  have "distinct (map membershipKey (filter (\<lambda>m. m_groupId m \<noteq> g_id g) (memberships d1)))"
    using assms by (simp add: m1 uniqueMemberships_def keys_filter)
  then show ?thesis
    by (simp add: setMembers_def Some f Let_def uniqueMemberships_def keys_bulkCreate)
qed

lemma snd_pass:
  "snd (case x of (Inl e, d2) \<Rightarrow> (f e, d2) | (Inr v, d2) \<Rightarrow> (g v, d2)) = snd x"
  by (simp split: prod.split sum.split)

lemma create_store:
  "snd (create sv name clanChat members d) = d
   \<or> (\<exists>g. snd (create sv name clanChat members d) = d\<lparr>groups := groups d @ [g]\<rparr>)
   \<or> (\<exists>g ms. snd (create sv name clanChat members d)
         = snd (setMembers sv (Some g) ms (d\<lparr>groups := groups d @ [g]\<rparr>)))"
  by (cases members) (simp_all add: create_def Let_def snd_pass, blast+)

lemma create_unique:
  assumes "uniqueMemberships d"
  shows "uniqueMemberships (snd (create sv name clanChat members d))"
proof -
  have new: "uniqueMemberships (d\<lparr>groups := groups d @ [g]\<rparr>)" for g
    using assms by (simp add: uniqueMemberships_def)
  from create_store [of sv name clanChat members d] show ?thesis
    using assms new setMembers_unique [OF new] by (elim disjE exE) simp_all
qed

lemma edit_store:
  "memberships (snd (edit sv i name clanChat code members d)) = memberships d
   \<or> (\<exists>g ms. memberships (snd (edit sv i name clanChat code members d))
         = memberships (snd (setMembers sv (Some g) ms d)))"
proof (cases members)
  case None
  then show ?thesis
    by (simp add: edit_def Let_def split: option.split)
next
  case (Some ms)
  have pass: "memberships (snd (case x of (Inl e, d1) \<Rightarrow> (Inl e, d1)
        | (Inr v, d1) \<Rightarrow> (f v d1, updateGroup i (h v d1) d1))) = memberships (snd x)"
    for x :: "(error + obj list) \<times> db" and f :: "obj list \<Rightarrow> db \<Rightarrow> error + obj" and h
    by (simp split: prod.split sum.split)
  show ?thesis
    unfolding edit_def Let_def Some
    by (simp add: pass split: option.split) blast
qed

lemma edit_unique:
  assumes "uniqueMemberships d"
  shows "uniqueMemberships (snd (edit sv i name clanChat code members d))"
  using edit_store [of sv i name clanChat code members d] assms setMembers_unique [OF assms]
  by (auto simp: uniqueMemberships_def)

lemma destroy_unique:
  assumes "uniqueMemberships d"
  shows "uniqueMemberships (snd (destroy sv i code d))"
  using assms
  by (simp add: destroy_def uniqueMemberships_def keys_filter split: option.split)

lemma removeMembers_unique:
  assumes "uniqueMemberships d"
  shows "uniqueMemberships (snd (removeMembers sv i code usernames d))"
  using assms
  by (simp add: removeMembers_def association_remove_def Let_def uniqueMemberships_def
      keys_filter touch_def split: option.split)

lemma changeRole_unique:
  assumes "uniqueMemberships d"
  shows "uniqueMemberships (snd (changeRole sv i username role code d))"
  using assms
  by (simp add: changeRole_def Let_def uniqueMemberships_def touch_def comp_def
      split: option.split)

lemma refreshScores_fold:
  "memberships (fold (\<lambda>gr acc. case snd gr of Inl e \<Rightarrow> acc
        | Inr newScore \<Rightarrow> if newScore \<noteq> g_score (fst gr)
            then updateGroup (g_id (fst gr)) (f newScore) acc else acc) xs d) = memberships d"
  by (induction xs arbitrary: d) (simp_all split: sum.split)

lemma refreshScores_memberships:
  "memberships (snd (refreshScores localeCompare findForGroup sv d)) = memberships d"
  by (simp add: refreshScores_def Let_def refreshScores_fold)

lemma refreshScores_unique:
  assumes "uniqueMemberships d"
  shows "uniqueMemberships (snd (refreshScores localeCompare findForGroup sv d))"
  using assms by (simp add: uniqueMemberships_def refreshScores_memberships)

lemma addMembers_store:
  "memberships (snd (addMembers sv i code members d)) = memberships d
   \<or> (\<exists>ps rows. association_add i ps None (memberships d) = Inr rows
        \<and> (memberships (snd (addMembers sv i code members d)) = rows
           \<or> (\<exists>ps' rows'. association_add i ps' (Some ''leader'') rows = Inr rows'
                \<and> memberships (snd (addMembers sv i code members d)) = rows')))"
proof -
  obtain ps d1 where f: "findAllOrCreate sv (map mi_username members) d = (ps, d1)"
    by (cases "findAllOrCreate sv (map mi_username members) d")
  have m1: "memberships d1 = memberships d"
    using findAllOrCreate_memberships [of sv "map mi_username members" d] f by simp
  show ?thesis
    unfolding addMembers_def Let_def f
    by (simp add: m1 split: option.split sum.split) blast
qed

lemma addMembers_unique:
  assumes "uniqueMemberships d"
  shows "uniqueMemberships (snd (addMembers sv i code members d))"
  using addMembers_store [of sv i code members d] assms
  unfolding uniqueMemberships_def
  by (elim disjE exE conjE) (simp_all add: keys_association_add)

lemma addMembers_keeps_keys:
  "membershipKey ` set (memberships d)
     \<subseteq> membershipKey ` set (memberships (snd (addMembers sv i code members d)))"
  using addMembers_store [of sv i code members d]
proof (elim disjE exE conjE)
  fix ps rows ps' rows'
  assume "association_add i ps None (memberships d) = Inr rows"
    "association_add i ps' (Some ''leader'') rows = Inr rows'"
    "memberships (snd (addMembers sv i code members d)) = rows'"
  then show ?thesis
    using keys_kept_association_add [of i ps None "memberships d" rows]
      keys_kept_association_add [of i ps' "Some ''leader''" rows rows']
    by simp
qed (simp_all add: keys_kept_association_add)

lemma one_row_per_key:
  assumes "distinct (map membershipKey rows)" "(gid, pid) \<in> membershipKey ` set rows"
  shows "length (filter (\<lambda>m. m_groupId m = gid \<and> m_playerId m = pid) rows) = 1"
  using assms
proof (induction rows)
  case Nil
  then show ?case by simp
next
  case (Cons r rows)
  show ?case
  proof (cases "membershipKey r = (gid, pid)")
    case True
    with Cons.prems have "(gid, pid) \<notin> membershipKey ` set rows" by auto
    then have "filter (\<lambda>m. m_groupId m = gid \<and> m_playerId m = pid) rows = []"
      by (auto simp: filter_empty_conv membershipKey_def image_iff)
    with True show ?thesis by (simp add: membershipKey_def)
  next
    case False
    with Cons show ?thesis by (auto simp: membershipKey_def)
  qed
qed

lemma addMembers_no_second_row:
  assumes "uniqueMemberships d" "hasRow (memberships d) i pid"
  shows "rowCount (snd (addMembers sv i code members d)) i pid = 1"
proof -
  have "(i, pid) \<in> membershipKey ` set (memberships (snd (addMembers sv i code members d)))"
    using assms(2) addMembers_keeps_keys [of d sv i code members] by (auto simp: hasRow_iff)
  moreover have "distinct (map membershipKey (memberships (snd (addMembers sv i code members d))))"
    using addMembers_unique [OF assms(1)] by (simp add: uniqueMemberships_def)
  ultimately show ?thesis
    unfolding rowCount_def by (intro one_row_per_key)
qed

lemma findAllOrCreate_existing:
  assumes "list_all (\<lambda>u. Player_findByUsername d (standardize sv u) \<noteq> None) us"
  shows "findAllOrCreate sv us d
       = (map (\<lambda>u. the (Player_findByUsername d (standardize sv u))) us, d)"
  using assms
  by (induction us) (auto simp: findOrCreate_def)

lemma addMembers_all_members:
  assumes "list_all (alreadyMember sv d i) members"
  shows "isBadRequest (fst (addMembers sv i code members d))"
proof -
  let ?existing = "map (\<lambda>pm. p_id (fst pm)) (groupMemberships d i)"
  let ?ps = "map (\<lambda>u. the (Player_findByUsername d (standardize sv u))) (map mi_username members)"
  have found: "list_all (\<lambda>u. Player_findByUsername d (standardize sv u) \<noteq> None) (map mi_username members)"
    using assms by (auto simp: list_all_iff alreadyMember_def split: option.splits)
  have f: "findAllOrCreate sv (map mi_username members) d = (?ps, d)"
    using found by (rule findAllOrCreate_existing)
  have "filter (\<lambda>p. p_id p \<notin> set ?existing) ?ps = []"
    using assms by (auto simp: filter_empty_conv list_all_iff alreadyMember_def split: option.splits)
  then show ?thesis
    unfolding addMembers_def Let_def f
    by (simp add: isBadRequest_def split: option.split)
qed

text \<open>
  Claim C6. If every pair (groupId, playerId) has at most one membership row, then so it
  is after \<^verbatim>\<open>create\<close>, \<^verbatim>\<open>edit\<close>, \<^verbatim>\<open>destroy\<close>, \<^verbatim>\<open>setMembers\<close>, \<^verbatim>\<open>addMembers\<close>,
  \<^verbatim>\<open>removeMembers\<close>, \<^verbatim>\<open>changeRole\<close> and \<^verbatim>\<open>refreshScores\<close>, whether the operation succeeds
  or fails. In particular a player who has a row in the group has exactly one row after
  \<^verbatim>\<open>addMembers\<close>, and \<^verbatim>\<open>addMembers\<close> fails with a validation error when every given
  username is that of a member.
\<close>

theorem memberships_stay_unique:
  assumes "uniqueMemberships d"
  shows "uniqueMemberships (snd (create sv newName newClanChat newMembers d))
       \<and> uniqueMemberships (snd (edit sv i name clanChat code editedMembers d))
       \<and> uniqueMemberships (snd (destroy sv i code d))
       \<and> uniqueMemberships (snd (setMembers sv grp setTo d))
       \<and> uniqueMemberships (snd (addMembers sv i code members d))
       \<and> uniqueMemberships (snd (removeMembers sv i code usernames d))
       \<and> uniqueMemberships (snd (changeRole sv i username role code d))
       \<and> uniqueMemberships (snd (refreshScores localeCompare findForGroup sv d))
       \<and> (hasRow (memberships d) i pid \<longrightarrow> rowCount (snd (addMembers sv i code members d)) i pid = 1)
       \<and> (list_all (alreadyMember sv d i) members \<longrightarrow> isBadRequest (fst (addMembers sv i code members d)))"
  using assms
  by (intro conjI impI create_unique edit_unique destroy_unique setMembers_unique addMembers_unique
      removeMembers_unique changeRole_unique refreshScores_unique addMembers_no_second_row
      addMembers_all_members)

theorem memberships_stay_unique_witness:
  "uniqueMemberships ex_db
   \<and> \<not> isl (fst (addMembers ex_services 1 ''secret'' ex_newcomers ex_db))
   \<and> uniqueMemberships (snd (addMembers ex_services 1 ''secret'' ex_newcomers ex_db))
   \<and> hasRow (memberships ex_db) 1 1
   \<and> rowCount (snd (addMembers ex_services 1 ''secret'' ex_newcomers ex_db)) 1 1 = 1
   \<and> rowCount (snd (addMembers ex_services 1 ''secret'' ex_newcomers ex_db)) 1 3 = 1
   \<and> list_all (alreadyMember ex_services ex_db 1) ex_insiders
   \<and> isBadRequest (fst (addMembers ex_services 1 ''secret'' ex_insiders ex_db))
   \<and> uniqueMemberships (snd (create ex_services ''Delta'' None (Some ex_newcomers) ex_db))
   \<and> uniqueMemberships (snd (edit ex_services 1 None None ''secret'' (Some ex_newcomers) ex_db))
   \<and> uniqueMemberships (snd (destroy ex_services 1 ''secret'' ex_db))
   \<and> uniqueMemberships (snd (removeMembers ex_services 1 ''secret'' [''bob''] ex_db))
   \<and> uniqueMemberships (snd (changeRole ex_services 1 ''bob'' ''member'' ''secret'' ex_db))
   \<and> uniqueMemberships (snd (refreshScores collate ex_competitions ex_services ex_db))"
proof -
  have u: "uniqueMemberships ex_db"
    by code_simp
  have ok: "\<not> isl (fst (addMembers ex_services 1 ''secret'' ex_newcomers ex_db))"
    by code_simp
  have carl: "rowCount (snd (addMembers ex_services 1 ''secret'' ex_newcomers ex_db)) 1 3 = 1"
    by code_simp
  have row: "hasRow (memberships ex_db) 1 1"
    by code_simp
  have ins: "list_all (alreadyMember ex_services ex_db 1) ex_insiders"
    by code_simp
  note new = memberships_stay_unique [OF u, where sv = ex_services and i = 1
      and code = "''secret''" and members = ex_newcomers and pid = 1
      and newName = "''Delta''" and newClanChat = None and newMembers = "Some ex_newcomers"
      and name = None and clanChat = None and editedMembers = "Some ex_newcomers"
      and usernames = "[''bob'']" and username = "''bob''" and role = "''member''"
      and localeCompare = collate and findForGroup = ex_competitions
      and grp = None and setTo = "[]"]
  note old = memberships_stay_unique [OF u, where sv = ex_services and i = 1
      and code = "''secret''" and members = ex_insiders and pid = 1
      and newName = "''Delta''" and newClanChat = None and newMembers = None
      and name = None and clanChat = None and editedMembers = None
      and usernames = "[''bob'']" and username = "''bob''" and role = "''member''"
      and localeCompare = collate and findForGroup = ex_competitions
      and grp = None and setTo = "[]"]
  from new old u ok carl row ins show ?thesis
    by blast
qed

end
